theory Spec2Isabelle
  imports Complex_Main "HOL-Library.Multiset" "HOL-Library.Stream"
begin

section \<open>Data model (types.go)\<close>

text \<open>
  A Go string is modelled by the list of its runes (code points, as natural numbers):
  the program only ever compares strings, converts them to \<open>[]rune\<close> and reads
  their first rune. The empty string is \<open>[]\<close>, a blank is \<open>[32]\<close>, a dot is
  \<open>[46]\<close> and the letter x is \<open>[120]\<close>.

  A \<open>float64\<close> is modelled by a real number: sums, products and quotients are
  exact, and the order of a \<open>range\<close> loop over a map does not change a sum. Rounding,
  overflow, infinities and NaN are outside the model; in particular a quotient by zero,
  which is infinite or not a number in the source, is 0 in the model. The only quotient of
  the scoring engine whose divisor is not tested first is the one by the mean of the
  effort matrix (\<open>uniformEffort\<close>). The Go maps of the language data are given as the
  list of their entries, in the order the \<open>range\<close> loop visits them.

  The fixed-size arrays \<open>[3][10]T\<close>, \<open>[8]T\<close>, \<open>[3]T\<close> and \<open>[2]T\<close> are
  functions from indices; the program reads and writes them inside their bounds only.
\<close>

type_synonym rune = nat
type_synonym gostring = "rune list"

record LanguageData =
  Language :: gostring
  Characters :: "(gostring \<times> real) list"
  Bigrams :: "(gostring \<times> real) list"

record BigramIndividualCoeff =
  Pos1 :: int
  Pos2 :: int
  Coeff :: real

record WeightConfig =
  W_Effort :: real
  W_HandSwitch :: real
  W_SameFinger :: real
  W_SameFingerJump :: real
  W_Inroll :: real
  W_Outroll :: real
  W_SHB :: real
  W_SFB :: real
  W_HVB :: real
  W_FVB :: real
  W_HDB :: real
  W_FDB :: real
  W_HFB :: real
  W_HSB :: real
  W_FSB :: real
  W_LSB :: real
  W_SRB :: real
  W_AFI :: real
  W_AFO :: real
  W_HDI :: real
  W_FDI :: real
  D18 :: real
  D27 :: real
  D36 :: real
  D45 :: real
  HSBStrictMode :: int
  FSBStrictMode :: int
  LSBStrictMode :: int
  TotalEffortNorm :: real
  MaxRowEffort1 :: real
  MaxRowEffort2 :: real
  MaxRowEffort3 :: real
  RowPenalty1 :: real
  RowPenalty2 :: real
  RowPenalty3 :: real

record KeyboardConfig =
  EffortMatrix :: "nat \<Rightarrow> nat \<Rightarrow> real"
  FixedPositions :: "nat \<Rightarrow> nat \<Rightarrow> gostring"
  MaxFingerEfforts :: "nat \<Rightarrow> real"
  FingerEffortPenalties :: "nat \<Rightarrow> real"
  MaxRowEfforts :: "nat \<Rightarrow> real"
  RowEffortPenalties :: "nat \<Rightarrow> real"
  Weights :: WeightConfig
  BigramIndividualCoeffs :: "BigramIndividualCoeff list"

record Layout =
  Name :: gostring
  Keys :: "nat \<Rightarrow> nat \<Rightarrow> gostring"
  PreComments :: "gostring list"
  PostComments :: "gostring list"

record BigramAnalysis =
  SHB :: real
  SFB :: real
  HVB :: real
  FVB :: real
  HDB :: real
  FDB :: real
  HFB :: real
  HSB :: real
  FSB :: real
  LSB :: real
  SRB :: real
  AFI :: real
  AFO :: real
  HSB2 :: real
  FSB2 :: real
  LSB2 :: real
  SKB :: real
  TIB :: real

record LayoutAnalysis =
  LayoutName :: gostring
  LayoutIndex :: int
  TotalEffort :: real
  EffortByRow :: "nat \<Rightarrow> real"
  EffortByFinger :: "nat \<Rightarrow> real"
  EffortByHalf :: "nat \<Rightarrow> real"
  BigramAnalysis :: BigramAnalysis
  HDI :: real
  FDI :: real
  MEP :: real
  WeightedScore :: real
  Config :: KeyboardConfig

section \<open>Scoring engine (calculator.go)\<close>

definition fingerMap :: "nat list" where
  "fingerMap = [0, 1, 2, 3, 3, 4, 4, 5, 6, 7]"

text \<open>\<open>getFingerForKey\<close> indexes \<open>fingerMap\<close> with the column; the program calls it
  with columns of the grid only (see \<open>buildKeyPos_in_grid\<close>).\<close>

definition getFingerForKey :: "nat \<Rightarrow> nat \<Rightarrow> nat" where
  "getFingerForKey row col = fingerMap ! col"

definition getHalf :: "nat \<Rightarrow> nat" where
  "getHalf col = (if col < 5 then 0 else 1)"

definition abs_int :: "int \<Rightarrow> int" where
  "abs_int x = (if x < 0 then - x else x)"

text \<open>The grid positions in the order of the nested loops
  \<open>for row := 0; row < 3\<close>, \<open>for col := 0; col < 10\<close>.\<close>

definition positions :: "(nat \<times> nat) list" where
  "positions = concat (map (\<lambda>row. map (\<lambda>col. (row, col)) [0..<10]) [0..<3])"

text \<open>The table \<open>keyPos\<close> that \<open>AnalyzeLayout\<close> builds: a later position overwrites
  an earlier one that holds the same string.\<close>

definition buildKeyPos :: "Layout \<Rightarrow> (gostring \<rightharpoonup> nat \<times> nat)" where
  "buildKeyPos layout =
     fold (\<lambda>(row, col) keyPos.
             let key = Keys layout row col
             in if key \<noteq> [] then keyPos(key \<mapsto> (row, col)) else keyPos)
          positions Map.empty"

subsection \<open>calculateEffort\<close>

text \<open>First loop: \<open>totalEffort\<close> and \<open>totalFreq\<close>.\<close>

definition effortTotals ::
  "KeyboardConfig \<Rightarrow> (gostring \<rightharpoonup> nat \<times> nat) \<Rightarrow> (gostring \<times> real) list \<Rightarrow> real \<times> real" where
  "effortTotals config keyPos chars =
     fold (\<lambda>(char, freq) (totalEffort, totalFreq).
             case keyPos char of
               None \<Rightarrow> (totalEffort, totalFreq)
             | Some (row, col) \<Rightarrow>
                 (totalEffort + EffortMatrix config row col * freq, totalFreq + freq))
          chars (0, 0)"

definition uniformEffort :: "KeyboardConfig \<Rightarrow> real" where
  "uniformEffort config =
     fold (\<lambda>(row, col) u. u + EffortMatrix config row col) positions 0 / 30"

text \<open>Second loop: \<open>rowTotalEfforts\<close> and \<open>rowTotalFreqs\<close>.\<close>

definition rowTotals ::
  "KeyboardConfig \<Rightarrow> (gostring \<rightharpoonup> nat \<times> nat) \<Rightarrow> (gostring \<times> real) list
     \<Rightarrow> (nat \<Rightarrow> real) \<times> (nat \<Rightarrow> real)" where
  "rowTotals config keyPos chars =
     fold (\<lambda>(char, freq) (rowTotalEfforts, rowTotalFreqs).
             case keyPos char of
               None \<Rightarrow> (rowTotalEfforts, rowTotalFreqs)
             | Some (row, col) \<Rightarrow>
                 (rowTotalEfforts(row := rowTotalEfforts row + EffortMatrix config row col * freq),
                  rowTotalFreqs(row := rowTotalFreqs row + freq)))
          chars (\<lambda>_. 0, \<lambda>_. 0)"

text \<open>Third loop: \<open>fingerFreqs\<close>.\<close>

definition fingerTotals ::
  "(gostring \<rightharpoonup> nat \<times> nat) \<Rightarrow> (gostring \<times> real) list \<Rightarrow> (nat \<Rightarrow> real)" where
  "fingerTotals keyPos chars =
     fold (\<lambda>(char, freq) fingerFreqs.
             case keyPos char of
               None \<Rightarrow> fingerFreqs
             | Some (row, col) \<Rightarrow>
                 let f = getFingerForKey row col
                 in if f < 8 then fingerFreqs(f := fingerFreqs f + freq) else fingerFreqs)
          chars (\<lambda>_. 0)"

text \<open>Fourth loop: \<open>halfFreqs\<close>.\<close>

definition halfTotals ::
  "(gostring \<rightharpoonup> nat \<times> nat) \<Rightarrow> (gostring \<times> real) list \<Rightarrow> (nat \<Rightarrow> real)" where
  "halfTotals keyPos chars =
     fold (\<lambda>(char, freq) halfFreqs.
             case keyPos char of
               None \<Rightarrow> halfFreqs
             | Some (row, col) \<Rightarrow>
                 let h = getHalf col in halfFreqs(h := halfFreqs h + freq))
          chars (\<lambda>_. 0)"

definition calculateEffort ::
  "Layout \<Rightarrow> KeyboardConfig \<Rightarrow> LanguageData \<Rightarrow> (gostring \<rightharpoonup> nat \<times> nat)
     \<Rightarrow> LayoutAnalysis \<Rightarrow> LayoutAnalysis" where
  "calculateEffort layout config langData keyPos analysis =
     (let (totalEffort, totalFreq) = effortTotals config keyPos (Characters langData);
          analysis =
            (if totalFreq > 0
             then analysis\<lparr>TotalEffort := totalEffort / totalFreq / uniformEffort config * 100\<rparr>
             else analysis);
          (rowTotalEfforts, rowTotalFreqs) = rowTotals config keyPos (Characters langData);
          analysis =
            (if totalFreq > 0
             then fold (\<lambda>row a. a\<lparr>EffortByRow :=
                                     (EffortByRow a)(row := rowTotalFreqs row / totalFreq * 100)\<rparr>)
                       [0..<3] analysis
             else analysis);
          fingerFreqs = fingerTotals keyPos (Characters langData);
          analysis =
            (if totalFreq > 0
             then fold (\<lambda>finger a. a\<lparr>EffortByFinger :=
                                     (EffortByFinger a)(finger := fingerFreqs finger / totalFreq * 100)\<rparr>)
                       [0..<8] analysis
             else analysis);
          halfFreqs = halfTotals keyPos (Characters langData);
          analysis =
            (if totalFreq > 0
             then fold (\<lambda>half a. a\<lparr>EffortByHalf :=
                                     (EffortByHalf a)(half := halfFreqs half / totalFreq * 100)\<rparr>)
                       [0..<2] analysis
             else analysis)
      in analysis)"

subsection \<open>calculateBigrams\<close>

text \<open>The local accumulators of \<open>calculateBigrams\<close>; \<open>tib\<close> stands for
  \<open>analysis.BigramAnalysis.TIB\<close>, which the loop updates in place.\<close>

record BigramSums =
  shb :: real
  sfb :: real
  hvb :: real
  fvb :: real
  hdb :: real
  fdb :: real
  hfb :: real
  hsb :: real
  fsb :: real
  lsb :: real
  srb :: real
  afi :: real
  afo :: real
  hsb2 :: real
  fsb2 :: real
  lsb2 :: real
  skb :: real
  totalBigramFreq :: real
  tib :: real

definition rowDiff :: "nat \<Rightarrow> nat \<Rightarrow> int" where
  "rowDiff row1 row2 = abs_int (int row1 - int row2)"

definition colDiff :: "nat \<Rightarrow> nat \<Rightarrow> int" where
  "colDiff col1 col2 = abs_int (int col1 - int col2)"

text \<open>The locals \<open>finger1IsSpecial\<close> and \<open>finger2IsSpecial\<close>.\<close>

definition fingerIsSpecial :: "nat \<Rightarrow> bool" where
  "fingerIsSpecial finger \<longleftrightarrow> finger = 1 \<or> finger = 2 \<or> finger = 5 \<or> finger = 6"

text \<open>The local \<open>isSameHand\<close>.\<close>

definition isSameHand :: "nat \<Rightarrow> nat \<Rightarrow> bool" where
  "isSameHand col1 col2 \<longleftrightarrow>
     (let leftHandCols1 = (col1 \<ge> 0 \<and> col1 \<le> 3);
          rightHandCols1 = (col1 \<ge> 6 \<and> col1 \<le> 9);
          leftHandCols2 = (col2 \<ge> 0 \<and> col2 \<le> 3);
          rightHandCols2 = (col2 \<ge> 6 \<and> col2 \<le> 9)
      in (leftHandCols1 \<and> leftHandCols2) \<or> (rightHandCols1 \<and> rightHandCols2))"

text \<open>A sequence of statements, run from first to last on the accumulators.\<close>

definition run :: "('s \<Rightarrow> 's) list \<Rightarrow> 's \<Rightarrow> 's" where
  "run stmts s = fold (\<lambda>stmt s. stmt s) stmts s"

text \<open>The statements for SHB and SFB.\<close>

definition countSHB :: "nat \<Rightarrow> nat \<Rightarrow> real \<Rightarrow> BigramSums \<Rightarrow> BigramSums" where
  "countSHB col1 col2 freq s =
     (if getHalf col1 = getHalf col2 then s\<lparr>shb := shb s + freq\<rparr> else s)"

definition countSFB :: "nat \<Rightarrow> nat \<Rightarrow> nat \<Rightarrow> nat \<Rightarrow> real \<Rightarrow> BigramSums \<Rightarrow> BigramSums" where
  "countSFB row1 col1 row2 col2 freq s =
     (if getFingerForKey row1 col1 = getFingerForKey row2 col2 then s\<lparr>sfb := sfb s + freq\<rparr> else s)"

text \<open>The statements for HVB, FVB, HDB, FDB, HFB and SRB.\<close>

definition countHVB :: "nat \<Rightarrow> nat \<Rightarrow> nat \<Rightarrow> nat \<Rightarrow> real \<Rightarrow> BigramSums \<Rightarrow> BigramSums" where
  "countHVB row1 col1 row2 col2 freq s =
     (if getFingerForKey row1 col1 = getFingerForKey row2 col2 \<and> col1 = col2
         \<and> rowDiff row1 row2 = 1 \<and> col1 \<noteq> 4 \<and> col1 \<noteq> 5
      then s\<lparr>hvb := hvb s + freq\<rparr> else s)"

definition countFVB :: "nat \<Rightarrow> nat \<Rightarrow> nat \<Rightarrow> nat \<Rightarrow> real \<Rightarrow> BigramSums \<Rightarrow> BigramSums" where
  "countFVB row1 col1 row2 col2 freq s =
     (if getFingerForKey row1 col1 = getFingerForKey row2 col2 \<and> col1 = col2
         \<and> rowDiff row1 row2 = 2 \<and> col1 \<noteq> 4 \<and> col1 \<noteq> 5
      then s\<lparr>fvb := fvb s + freq\<rparr> else s)"

definition countHDB :: "nat \<Rightarrow> nat \<Rightarrow> nat \<Rightarrow> nat \<Rightarrow> real \<Rightarrow> BigramSums \<Rightarrow> BigramSums" where
  "countHDB row1 col1 row2 col2 freq s =
     (if getFingerForKey row1 col1 = getFingerForKey row2 col2
         \<and> rowDiff row1 row2 = 1 \<and> colDiff col1 col2 = 1
      then s\<lparr>hdb := hdb s + freq\<rparr> else s)"

definition countFDB :: "nat \<Rightarrow> nat \<Rightarrow> nat \<Rightarrow> nat \<Rightarrow> real \<Rightarrow> BigramSums \<Rightarrow> BigramSums" where
  "countFDB row1 col1 row2 col2 freq s =
     (if getFingerForKey row1 col1 = getFingerForKey row2 col2
         \<and> rowDiff row1 row2 = 2 \<and> colDiff col1 col2 = 1
      then s\<lparr>fdb := fdb s + freq\<rparr> else s)"

definition countHFB :: "nat \<Rightarrow> nat \<Rightarrow> nat \<Rightarrow> nat \<Rightarrow> real \<Rightarrow> BigramSums \<Rightarrow> BigramSums" where
  "countHFB row1 col1 row2 col2 freq s =
     (if getFingerForKey row1 col1 = getFingerForKey row2 col2
         \<and> row1 = row2 \<and> colDiff col1 col2 = 1
      then s\<lparr>hfb := hfb s + freq\<rparr> else s)"

definition countSRB :: "nat \<Rightarrow> nat \<Rightarrow> nat \<Rightarrow> nat \<Rightarrow> real \<Rightarrow> BigramSums \<Rightarrow> BigramSums" where
  "countSRB row1 col1 row2 col2 freq s =
     (if row1 = row2 \<and> col1 \<noteq> 4 \<and> col1 \<noteq> 5 \<and> col2 \<noteq> 4 \<and> col2 \<noteq> 5
      then s\<lparr>srb := srb s + freq\<rparr> else s)"

text \<open>The condition of the HSB statement, and the statement.\<close>

definition isHSBPattern :: "nat \<Rightarrow> nat \<Rightarrow> nat \<Rightarrow> nat \<Rightarrow> bool" where
  "isHSBPattern row1 col1 row2 col2 \<longleftrightarrow>
     isSameHand col1 col2 \<and> getFingerForKey row1 col1 \<noteq> getFingerForKey row2 col2
     \<and> rowDiff row1 row2 = 1 \<and> col1 \<noteq> 4 \<and> col1 \<noteq> 5 \<and> col2 \<noteq> 4 \<and> col2 \<noteq> 5"

definition isHSBValid :: "nat \<Rightarrow> nat \<Rightarrow> nat \<Rightarrow> nat \<Rightarrow> bool" where
  "isHSBValid row1 col1 row2 col2 \<longleftrightarrow>
     (let lowerRow = (if row2 > row1 then row2 else row1)
      in (lowerRow = row1 \<and> fingerIsSpecial (getFingerForKey row1 col1))
         \<or> (lowerRow = row2 \<and> fingerIsSpecial (getFingerForKey row2 col2)))"

definition countHSB :: "KeyboardConfig \<Rightarrow> nat \<Rightarrow> nat \<Rightarrow> nat \<Rightarrow> nat \<Rightarrow> real \<Rightarrow> BigramSums \<Rightarrow> BigramSums" where
  "countHSB config row1 col1 row2 col2 freq s =
     (if isHSBPattern row1 col1 row2 col2
      then if HSBStrictMode (Weights config) = 1
           then if isHSBValid row1 col1 row2 col2
                then s\<lparr>hsb := hsb s + freq\<rparr>
                else s\<lparr>hsb2 := hsb2 s + freq\<rparr>
           else s\<lparr>hsb := hsb s + freq\<rparr>
      else s)"

text \<open>The condition of the FSB statement, and the statement.\<close>

definition isFSBPattern :: "nat \<Rightarrow> nat \<Rightarrow> nat \<Rightarrow> nat \<Rightarrow> bool" where
  "isFSBPattern row1 col1 row2 col2 \<longleftrightarrow>
     isSameHand col1 col2 \<and> getFingerForKey row1 col1 \<noteq> getFingerForKey row2 col2
     \<and> rowDiff row1 row2 = 2 \<and> ((row1 = 0 \<and> row2 = 2) \<or> (row1 = 2 \<and> row2 = 0))
     \<and> col1 \<noteq> 4 \<and> col1 \<noteq> 5 \<and> col2 \<noteq> 4 \<and> col2 \<noteq> 5"

definition isFSBValid :: "nat \<Rightarrow> nat \<Rightarrow> nat \<Rightarrow> nat \<Rightarrow> bool" where
  "isFSBValid row1 col1 row2 col2 \<longleftrightarrow>
     (row1 = 2 \<and> fingerIsSpecial (getFingerForKey row1 col1))
     \<or> (row2 = 2 \<and> fingerIsSpecial (getFingerForKey row2 col2))"

definition countFSB :: "KeyboardConfig \<Rightarrow> nat \<Rightarrow> nat \<Rightarrow> nat \<Rightarrow> nat \<Rightarrow> real \<Rightarrow> BigramSums \<Rightarrow> BigramSums" where
  "countFSB config row1 col1 row2 col2 freq s =
     (if isFSBPattern row1 col1 row2 col2
      then if FSBStrictMode (Weights config) = 1
           then if isFSBValid row1 col1 row2 col2
                then s\<lparr>fsb := fsb s + freq\<rparr>
                else s\<lparr>fsb2 := fsb2 s + freq\<rparr>
           else s\<lparr>fsb := fsb s + freq\<rparr>
      else s)"

text \<open>The LSB statement.\<close>

definition isLSBPattern :: "nat \<Rightarrow> nat \<Rightarrow> bool" where
  "isLSBPattern col1 col2 \<longleftrightarrow>
     (col1 = 2 \<and> col2 = 4) \<or> (col1 = 4 \<and> col2 = 2) \<or> (col1 = 5 \<and> col2 = 7) \<or> (col1 = 7 \<and> col2 = 5)"

definition isLSBValid :: "nat \<Rightarrow> nat \<Rightarrow> nat \<Rightarrow> nat \<Rightarrow> bool" where
  "isLSBValid row1 col1 row2 col2 \<longleftrightarrow>
     (let finger1 = getFingerForKey row1 col1;
          finger2 = getFingerForKey row2 col2;
          finger1IsIndex = (finger1 = 1 \<or> finger1 = 4);
          finger2IsMiddle = (finger2 = 2 \<or> finger2 = 5);
          finger2IsIndex = (finger2 = 1 \<or> finger2 = 4);
          finger1IsMiddle = (finger1 = 2 \<or> finger1 = 5)
      in (finger1IsIndex \<and> finger2IsMiddle) \<or> (finger2IsIndex \<and> finger1IsMiddle))"

definition countLSB :: "KeyboardConfig \<Rightarrow> nat \<Rightarrow> nat \<Rightarrow> nat \<Rightarrow> nat \<Rightarrow> real \<Rightarrow> BigramSums \<Rightarrow> BigramSums" where
  "countLSB config row1 col1 row2 col2 freq s =
     (if isLSBPattern col1 col2
      then if LSBStrictMode (Weights config) = 1
           then if isLSBValid row1 col1 row2 col2
                then s\<lparr>lsb := lsb s + freq\<rparr>
                else s\<lparr>lsb2 := lsb2 s + freq\<rparr>
           else s\<lparr>lsb := lsb s + freq\<rparr>
      else s)"

text \<open>The AFI/AFO statement; \<open>centerDist\<close> is \<open>math.Abs(float64(col) - 4.5)\<close>.\<close>

definition centerDist :: "nat \<Rightarrow> real" where
  "centerDist col = \<bar>real col - 4.5\<bar>"

definition countAF :: "nat \<Rightarrow> nat \<Rightarrow> nat \<Rightarrow> nat \<Rightarrow> real \<Rightarrow> BigramSums \<Rightarrow> BigramSums" where
  "countAF row1 col1 row2 col2 freq s =
     (if row1 = row2 \<and> colDiff col1 col2 = 1
      then let centerDist1 = centerDist col1;
               centerDist2 = centerDist col2
           in if centerDist1 > centerDist2 then s\<lparr>afi := afi s + freq\<rparr>
              else if centerDist1 < centerDist2 then s\<lparr>afo := afo s + freq\<rparr>
              else s
      else s)"

text \<open>The search for individual coefficients: every entry of the list that names the
  ordered pair of position numbers adds to TIB.\<close>

definition countTIB :: "KeyboardConfig \<Rightarrow> nat \<Rightarrow> nat \<Rightarrow> nat \<Rightarrow> nat \<Rightarrow> real \<Rightarrow> BigramSums \<Rightarrow> BigramSums" where
  "countTIB config row1 col1 row2 col2 freq s =
     (let pos1Num = int row1 * 10 + int col1 + 1;
          pos2Num = int row2 * 10 + int col2 + 1
      in fold (\<lambda>coeff s.
                 if Pos1 coeff = pos1Num - 1 \<and> Pos2 coeff = pos2Num - 1
                 then s\<lparr>tib := tib s + freq * Coeff coeff\<rparr> else s)
              (BigramIndividualCoeffs config) s)"

text \<open>The statement for SKB.\<close>

definition countSKB :: "bool \<Rightarrow> real \<Rightarrow> BigramSums \<Rightarrow> BigramSums" where
  "countSKB sameChar freq s = (if sameChar then s\<lparr>skb := skb s + freq\<rparr> else s)"

text \<open>The statements guarded by \<open>if half1 == half2\<close>, in the order of the source.\<close>

definition countSameHalf ::
  "KeyboardConfig \<Rightarrow> nat \<Rightarrow> nat \<Rightarrow> nat \<Rightarrow> nat \<Rightarrow> real \<Rightarrow> BigramSums \<Rightarrow> BigramSums" where
  "countSameHalf config row1 col1 row2 col2 freq s =
     (if getHalf col1 = getHalf col2
      then run [countHVB row1 col1 row2 col2 freq,
                countFVB row1 col1 row2 col2 freq,
                countHDB row1 col1 row2 col2 freq,
                countFDB row1 col1 row2 col2 freq,
                countHFB row1 col1 row2 col2 freq,
                countSRB row1 col1 row2 col2 freq,
                countHSB config row1 col1 row2 col2 freq,
                countFSB config row1 col1 row2 col2 freq,
                countLSB config row1 col1 row2 col2 freq,
                countAF row1 col1 row2 col2 freq] s
      else s)"

text \<open>The body of the bigram loop once both characters are found on the layout;
  \<open>sameChar\<close> is the test \<open>char1 == char2\<close>.\<close>

definition classifyBigram ::
  "KeyboardConfig \<Rightarrow> nat \<Rightarrow> nat \<Rightarrow> nat \<Rightarrow> nat \<Rightarrow> bool \<Rightarrow> real \<Rightarrow> BigramSums \<Rightarrow> BigramSums" where
  "classifyBigram config row1 col1 row2 col2 sameChar freq s =
     run [(\<lambda>s. s\<lparr>totalBigramFreq := totalBigramFreq s + freq\<rparr>),
          countSHB col1 col2 freq,
          countSFB row1 col1 row2 col2 freq,
          countSameHalf config row1 col1 row2 col2 freq,
          countSKB sameChar freq,
          countTIB config row1 col1 row2 col2 freq] s"

text \<open>One round of the loop over \<open>langData.Bigrams\<close>.\<close>

definition bigramStep ::
  "KeyboardConfig \<Rightarrow> (gostring \<rightharpoonup> nat \<times> nat) \<Rightarrow> gostring \<times> real \<Rightarrow> BigramSums \<Rightarrow> BigramSums" where
  "bigramStep config keyPos bf s =
     (let bigram = fst bf;
          freq = snd bf
      in if length bigram \<noteq> 2 then s
         else let char1 = [bigram ! 0];
                  char2 = [bigram ! 1]
              in (case keyPos char1 of
                    None \<Rightarrow> s
                  | Some pos1 \<Rightarrow>
                      (case keyPos char2 of
                         None \<Rightarrow> s
                       | Some pos2 \<Rightarrow>
                           classifyBigram config (fst pos1) (snd pos1) (fst pos2) (snd pos2)
                             (char1 = char2) freq s)))"

definition zeroSums :: BigramSums where
  "zeroSums = \<lparr>shb = 0, sfb = 0, hvb = 0, fvb = 0, hdb = 0, fdb = 0, hfb = 0, hsb = 0, fsb = 0,
     lsb = 0, srb = 0, afi = 0, afo = 0, hsb2 = 0, fsb2 = 0, lsb2 = 0, skb = 0,
     totalBigramFreq = 0, tib = 0\<rparr>"

definition bigramSums ::
  "KeyboardConfig \<Rightarrow> (gostring \<rightharpoonup> nat \<times> nat) \<Rightarrow> (gostring \<times> real) list \<Rightarrow> real \<Rightarrow> BigramSums" where
  "bigramSums config keyPos bigrams tib0 =
     fold (bigramStep config keyPos) bigrams (zeroSums\<lparr>tib := tib0\<rparr>)"

definition calculateBigrams ::
  "Layout \<Rightarrow> KeyboardConfig \<Rightarrow> LanguageData \<Rightarrow> (gostring \<rightharpoonup> nat \<times> nat)
     \<Rightarrow> LayoutAnalysis \<Rightarrow> LayoutAnalysis" where
  "calculateBigrams layout config langData keyPos analysis =
     (let s = bigramSums config keyPos (Bigrams langData) (TIB (BigramAnalysis analysis));
          t = totalBigramFreq s;
          ba = (BigramAnalysis analysis)\<lparr>TIB := tib s\<rparr>
      in if t > 0
         then analysis\<lparr>BigramAnalysis :=
                ba\<lparr>SHB := shb s / t * 100, SFB := sfb s / t * 100, HVB := hvb s / t * 100,
                   FVB := fvb s / t * 100, HDB := hdb s / t * 100, FDB := fdb s / t * 100,
                   HFB := hfb s / t * 100, HSB := hsb s / t * 100, FSB := fsb s / t * 100,
                   LSB := lsb s / t * 100, SRB := srb s / t * 100, AFI := afi s / t * 100,
                   AFO := afo s / t * 100, HSB2 := hsb2 s / t * 100, FSB2 := fsb2 s / t * 100,
                   LSB2 := lsb2 s / t * 100, SKB := skb s / t * 100,
                   TIB := tib s / t * 100\<rparr>\<rparr>
         else analysis\<lparr>BigramAnalysis := ba\<rparr>)"

subsection \<open>Balance indices, penalty and score\<close>

definition calculateFDI :: "LayoutAnalysis \<Rightarrow> KeyboardConfig \<Rightarrow> real" where
  "calculateFDI analysis config =
     0 + D18 (Weights config) * \<bar>EffortByFinger analysis 0 - EffortByFinger analysis 7\<bar>
       + D27 (Weights config) * \<bar>EffortByFinger analysis 1 - EffortByFinger analysis 6\<bar>
       + D36 (Weights config) * \<bar>EffortByFinger analysis 2 - EffortByFinger analysis 5\<bar>
       + D45 (Weights config) * \<bar>EffortByFinger analysis 3 - EffortByFinger analysis 4\<bar>"

definition calculateMEP :: "LayoutAnalysis \<Rightarrow> KeyboardConfig \<Rightarrow> real" where
  "calculateMEP analysis config =
     (let mep = fold (\<lambda>finger mep.
                        let maxFingerEffort = MaxFingerEfforts config finger
                        in if maxFingerEffort > 0
                           then let excess = EffortByFinger analysis finger - maxFingerEffort
                                in if excess > 0
                                   then mep + excess * FingerEffortPenalties config finger
                                   else mep
                           else mep)
                     [0..<8] 0
      in fold (\<lambda>row mep.
                 let maxRowEffort = MaxRowEfforts config row
                 in if maxRowEffort > 0
                    then let excess = EffortByRow analysis row - maxRowEffort
                         in if excess > 0
                            then mep + excess * RowEffortPenalties config row
                            else mep
                    else mep)
              [0..<3] mep)"

definition calculateWeightedScore :: "KeyboardConfig \<Rightarrow> LayoutAnalysis \<Rightarrow> LayoutAnalysis" where
  "calculateWeightedScore config analysis =
     (let w = Weights config;
          b = BigramAnalysis analysis;
          score = 0 + TotalEffortNorm w * TotalEffort analysis
                    + W_SHB w * SHB b + W_SFB w * SFB b + W_HVB w * HVB b + W_FVB w * FVB b
                    + W_HDB w * HDB b + W_FDB w * FDB b + W_HFB w * HFB b + W_HSB w * HSB b
                    + W_FSB w * FSB b + W_LSB w * LSB b + W_SRB w * SRB b + W_AFI w * AFI b
                    + W_AFO w * AFO b + TIB b
                    + W_HDI w * HDI analysis + W_FDI w * FDI analysis + MEP analysis
      in analysis\<lparr>WeightedScore := score\<rparr>)"

subsection \<open>AnalyzeLayout\<close>

definition zeroBigramAnalysis :: BigramAnalysis where
  "zeroBigramAnalysis = \<lparr>SHB = 0, SFB = 0, HVB = 0, FVB = 0, HDB = 0, FDB = 0, HFB = 0, HSB = 0,
     FSB = 0, LSB = 0, SRB = 0, AFI = 0, AFO = 0, HSB2 = 0, FSB2 = 0, LSB2 = 0, SKB = 0, TIB = 0\<rparr>"

text \<open>The struct literal \<open>&LayoutAnalysis{LayoutName: layout.Name, Config: config}\<close>:
  every other field has its zero value.\<close>

definition newAnalysis :: "Layout \<Rightarrow> KeyboardConfig \<Rightarrow> LayoutAnalysis" where
  "newAnalysis layout config =
     \<lparr>LayoutName = Name layout, LayoutIndex = 0, TotalEffort = 0, EffortByRow = (\<lambda>_. 0),
      EffortByFinger = (\<lambda>_. 0), EffortByHalf = (\<lambda>_. 0), BigramAnalysis = zeroBigramAnalysis,
      HDI = 0, FDI = 0, MEP = 0, WeightedScore = 0, Config = config\<rparr>"

definition AnalyzeLayout :: "Layout \<Rightarrow> KeyboardConfig \<Rightarrow> LanguageData \<Rightarrow> LayoutAnalysis" where
  "AnalyzeLayout layout config langData =
     (let analysis = newAnalysis layout config;
          keyPos = buildKeyPos layout;
          analysis = calculateEffort layout config langData keyPos analysis;
          analysis = calculateBigrams layout config langData keyPos analysis;
          analysis = analysis\<lparr>HDI := \<bar>EffortByHalf analysis 0 - EffortByHalf analysis 1\<bar>\<rparr>;
          analysis = analysis\<lparr>FDI := calculateFDI analysis config\<rparr>;
          analysis = analysis\<lparr>MEP := calculateMEP analysis config\<rparr>
      in calculateWeightedScore config analysis)"

section \<open>Quantities named by the specification\<close>

text \<open>The total matched character frequency: the sum of the frequencies of the corpus
  characters that have a position on the layout.\<close>

definition matchedFreq :: "(gostring \<rightharpoonup> nat \<times> nat) \<Rightarrow> (gostring \<times> real) list \<Rightarrow> real" where
  "matchedFreq keyPos chars =
     (\<Sum>(char, freq) \<leftarrow> chars. case keyPos char of None \<Rightarrow> 0 | Some _ \<Rightarrow> freq)"

section \<open>Example inputs\<close>

text \<open>A grid given by the list of its non-empty keys.\<close>

definition mkKeys :: "((nat \<times> nat) \<times> gostring) list \<Rightarrow> nat \<Rightarrow> nat \<Rightarrow> gostring" where
  "mkKeys kvs row col = (case map_of kvs (row, col) of None \<Rightarrow> [] | Some key \<Rightarrow> key)"

definition exWeights :: WeightConfig where
  "exWeights = \<lparr>W_Effort = 0, W_HandSwitch = 0, W_SameFinger = 0, W_SameFingerJump = 0,
     W_Inroll = 0, W_Outroll = 0, W_SHB = 0, W_SFB = 0, W_HVB = 0, W_FVB = 0, W_HDB = 0,
     W_FDB = 0, W_HFB = 0, W_HSB = 0, W_FSB = 0, W_LSB = 0, W_SRB = 0, W_AFI = 0, W_AFO = 0,
     W_HDI = 0, W_FDI = 0, D18 = 0, D27 = 0, D36 = 0, D45 = 0, HSBStrictMode = 1,
     FSBStrictMode = 1, LSBStrictMode = 1, TotalEffortNorm = 1, MaxRowEffort1 = 0,
     MaxRowEffort2 = 0, MaxRowEffort3 = 0, RowPenalty1 = 0, RowPenalty2 = 0, RowPenalty3 = 0\<rparr>"

text \<open>Every position costs 1 and is free (\<open>"."\<close>); the ordered pair of positions 0 and 1
  has the individual coefficient 3.\<close>

definition exConfig :: KeyboardConfig where
  "exConfig = \<lparr>EffortMatrix = (\<lambda>_ _. 1), FixedPositions = (\<lambda>_ _. [46]),
     MaxFingerEfforts = (\<lambda>_. 0), FingerEffortPenalties = (\<lambda>_. 0), MaxRowEfforts = (\<lambda>_. 0),
     RowEffortPenalties = (\<lambda>_. 0), Weights = exWeights,
     BigramIndividualCoeffs = [\<lparr>Pos1 = 0, Pos2 = 1, Coeff = 3\<rparr>]\<rparr>"

text \<open>The letters a and b on the first two keys of the top row.\<close>

definition exLayout :: Layout where
  "exLayout = \<lparr>Name = [], Keys = mkKeys [((0, 0), [97]), ((0, 1), [98])],
     PreComments = [], PostComments = []\<rparr>"

definition exLang :: LanguageData where
  "exLang = \<lparr>Language = [], Characters = [([97], 3), ([98], 1)], Bigrams = [([97, 98], 2)]\<rparr>"

text \<open>A corpus without characters and bigrams.\<close>

definition emptyCorpus :: "LanguageData \<Rightarrow> LanguageData" where
  "emptyCorpus langData = langData\<lparr>Characters := [], Bigrams := []\<rparr>"

text \<open>The bigrams of the corpus that are counted: two runes, both on the layout. Each comes
  with the positions of its two characters and its frequency.\<close>

definition matchBigram ::
  "(gostring \<rightharpoonup> nat \<times> nat) \<Rightarrow> gostring \<times> real \<Rightarrow> ((nat \<times> nat) \<times> (nat \<times> nat) \<times> real) option" where
  "matchBigram keyPos bf =
     (if length (fst bf) \<noteq> 2 then None
      else case keyPos [fst bf ! 0] of
             None \<Rightarrow> None
           | Some pos1 \<Rightarrow>
               (case keyPos [fst bf ! 1] of
                  None \<Rightarrow> None
                | Some pos2 \<Rightarrow> Some (pos1, pos2, snd bf)))"

definition matchedBigrams ::
  "(gostring \<rightharpoonup> nat \<times> nat) \<Rightarrow> (gostring \<times> real) list \<Rightarrow> ((nat \<times> nat) \<times> (nat \<times> nat) \<times> real) list" where
  "matchedBigrams keyPos bigrams = List.map_filter (matchBigram keyPos) bigrams"

text \<open>The total matched bigram frequency.\<close>

definition matchedBigramFreq :: "(gostring \<rightharpoonup> nat \<times> nat) \<Rightarrow> (gostring \<times> real) list \<Rightarrow> real" where
  "matchedBigramFreq keyPos bigrams = (\<Sum>(pos1, pos2, freq) \<leftarrow> matchedBigrams keyPos bigrams. freq)"

text \<open>The explicit overrides of the cost model for an ordered pair of positions; a position
  \<open>(row, col)\<close> has the number \<open>row * 10 + col\<close>.\<close>

definition overrides :: "KeyboardConfig \<Rightarrow> nat \<times> nat \<Rightarrow> nat \<times> nat \<Rightarrow> BigramIndividualCoeff list" where
  "overrides config pos1 pos2 =
     filter (\<lambda>c. Pos1 c = int (fst pos1) * 10 + int (snd pos1)
                \<and> Pos2 c = int (fst pos2) * 10 + int (snd pos2))
            (BigramIndividualCoeffs config)"

text \<open>The sum of \<open>freq * override_coefficient\<close> over the matched bigrams and the overrides of
  their position pairs.\<close>

definition rawTIB :: "KeyboardConfig \<Rightarrow> (gostring \<rightharpoonup> nat \<times> nat) \<Rightarrow> (gostring \<times> real) list \<Rightarrow> real" where
  "rawTIB config keyPos bigrams =
     (\<Sum>(pos1, pos2, freq) \<leftarrow> matchedBigrams keyPos bigrams.
        \<Sum>c \<leftarrow> overrides config pos1 pos2. freq * Coeff c)"

text \<open>The frequency mass of the matched bigrams with the HSB, FSB and LSB geometry.\<close>

definition hsbMass :: "(gostring \<rightharpoonup> nat \<times> nat) \<Rightarrow> (gostring \<times> real) list \<Rightarrow> real" where
  "hsbMass keyPos bigrams =
     (\<Sum>(pos1, pos2, freq) \<leftarrow> matchedBigrams keyPos bigrams.
        if getHalf (snd pos1) = getHalf (snd pos2)
           \<and> isHSBPattern (fst pos1) (snd pos1) (fst pos2) (snd pos2) then freq else 0)"

definition fsbMass :: "(gostring \<rightharpoonup> nat \<times> nat) \<Rightarrow> (gostring \<times> real) list \<Rightarrow> real" where
  "fsbMass keyPos bigrams =
     (\<Sum>(pos1, pos2, freq) \<leftarrow> matchedBigrams keyPos bigrams.
        if getHalf (snd pos1) = getHalf (snd pos2)
           \<and> isFSBPattern (fst pos1) (snd pos1) (fst pos2) (snd pos2) then freq else 0)"

definition lsbMass :: "(gostring \<rightharpoonup> nat \<times> nat) \<Rightarrow> (gostring \<times> real) list \<Rightarrow> real" where
  "lsbMass keyPos bigrams =
     (\<Sum>(pos1, pos2, freq) \<leftarrow> matchedBigrams keyPos bigrams.
        if getHalf (snd pos1) = getHalf (snd pos2) \<and> isLSBPattern (snd pos1) (snd pos2)
        then freq else 0)"

text \<open>A configuration with the three strict-mode flags set to given values.\<close>

definition withStrictModes :: "KeyboardConfig \<Rightarrow> int \<Rightarrow> int \<Rightarrow> int \<Rightarrow> KeyboardConfig" where
  "withStrictModes config h f l =
     config\<lparr>Weights := (Weights config)\<lparr>HSBStrictMode := h, FSBStrictMode := f, LSBStrictMode := l\<rparr>\<rparr>"

text \<open>The fingers the specification calls stretch fingers: "index or ring on either hand".
  The index fingers are the two fingers that serve two columns each (columns 3, 4 and
  5, 6: fingers 4 and 5 of the specification, 3 and 4 in the code's numbering from 0); the
  ring fingers are the neighbours of the little fingers (columns 1 and 8: fingers 1 and 6
  in the code's numbering).\<close>

definition isIndexFinger :: "nat \<Rightarrow> bool" where
  "isIndexFinger finger \<longleftrightarrow> finger = 3 \<or> finger = 4"

definition isRingFinger :: "nat \<Rightarrow> bool" where
  "isRingFinger finger \<longleftrightarrow> finger = 1 \<or> finger = 6"

definition specStretchFinger :: "nat \<Rightarrow> bool" where
  "specStretchFinger finger \<longleftrightarrow> isIndexFinger finger \<or> isRingFinger finger"

text \<open>The letter a on the home row under the left index finger (column 3), the letter b on
  the top row under the left middle finger (column 2), and the bigram ab.\<close>

definition exLayoutHSB :: Layout where
  "exLayoutHSB = \<lparr>Name = [], Keys = mkKeys [((1, 3), [97]), ((0, 2), [98])],
     PreComments = [], PostComments = []\<rparr>"

section \<open>Optimization engine\<close>

text \<open>
  The search uses three functions of the Go standard library, which are parameters of the
  model: \<open>unicode.IsUpper\<close>, \<open>strings.ToLower\<close> and \<open>rand.Seed\<close>. The state of the
  global random source is a stream of natural numbers: \<open>rand.Intn(n)\<close> returns the next
  number modulo \<open>n\<close>, \<open>rand.Float64()\<close> the next number modulo \<open>2^53\<close> divided by
  \<open>2^53\<close>, a value in \<open>[0, 1)\<close>. Every sequence of results that the library can
  produce is the sequence of some stream. The output of \<open>fmt.Printf\<close> is not modelled.
\<close>

type_synonym rng = "nat stream"

record GoLib =
  IsUpper :: "rune \<Rightarrow> bool"
  ToLower :: "gostring \<Rightarrow> gostring"
  Seed :: "int \<Rightarrow> rng"

definition Intn :: "nat \<Rightarrow> rng \<Rightarrow> nat \<times> rng" where
  "Intn n g = (shd g mod n, stl g)"

definition Float64 :: "rng \<Rightarrow> real \<times> rng" where
  "Float64 g = (real (shd g mod 2 ^ 53) / 2 ^ 53, stl g)"

definition isUppercase :: "GoLib \<Rightarrow> gostring \<Rightarrow> bool" where
  "isUppercase lib s = (case s of [] \<Rightarrow> False | r # _ \<Rightarrow> IsUpper lib r)"

definition hasUppercaseLetters :: "GoLib \<Rightarrow> Layout \<Rightarrow> bool" where
  "hasUppercaseLetters lib layout =
     list_ex (\<lambda>(row, col). isUppercase lib (Keys layout row col)) positions"

text \<open>Reading and writing one cell of a \<open>[3][10]\<close> array.\<close>

definition setCell :: "(nat \<Rightarrow> nat \<Rightarrow> 'a) \<Rightarrow> nat \<times> nat \<Rightarrow> 'a \<Rightarrow> (nat \<Rightarrow> nat \<Rightarrow> 'a)" where
  "setCell m pos v = m(fst pos := (m (fst pos))(snd pos := v))"

definition createLowercaseLayout :: "GoLib \<Rightarrow> Layout \<Rightarrow> Layout \<times> (nat \<Rightarrow> nat \<Rightarrow> bool)" where
  "createLowercaseLayout lib originalLayout =
     fold (\<lambda>(row, col) (lowercaseLayout, uppercasePositions).
             let key = Keys originalLayout row col
             in if key \<noteq> [] \<and> key \<noteq> [32]
                then (lowercaseLayout\<lparr>Keys := setCell (Keys lowercaseLayout) (row, col) (ToLower lib key)\<rparr>,
                      setCell uppercasePositions (row, col) (isUppercase lib key))
                else (lowercaseLayout, setCell uppercasePositions (row, col) False))
          positions (originalLayout, \<lambda>_ _. False)"

record SimulatedAnnealingParams =
  InitialTemp :: real
  CoolingRate :: real
  Iterations :: int
  Restarts :: int
  RandomSeed :: int

record SimulatedAnnealingResult =
  Layout :: Layout
  Analysis :: LayoutAnalysis
  Score :: real

text \<open>The exchange of the keys at two positions: both right-hand sides are read before
  the two assignments.\<close>

definition swapKeys :: "Layout \<Rightarrow> nat \<times> nat \<Rightarrow> nat \<times> nat \<Rightarrow> Layout" where
  "swapKeys neighbor pos1 pos2 =
     (let key1 = Keys neighbor (fst pos1) (snd pos1);
          key2 = Keys neighbor (fst pos2) (snd pos2)
      in neighbor\<lparr>Keys := setCell (setCell (Keys neighbor) pos1 key2) pos2 key1\<rparr>)"

text \<open>The loop \<open>for idx2 == idx1 { idx2 = rand.Intn(n) }\<close> of \<open>generateNeighbor\<close>. It ends
  when the source draws an index other than \<open>idx1\<close>; a run that never does is \<open>None\<close>.\<close>

partial_function (option) redraw :: "nat \<Rightarrow> nat \<Rightarrow> nat \<Rightarrow> rng \<Rightarrow> (nat \<times> rng) option" where
  "redraw n idx1 idx2 g =
     (if idx2 = idx1 then redraw n idx1 (fst (Intn n g)) (snd (Intn n g)) else Some (idx2, g))"

text \<open>The loop \<open>for idx2 == idx1 && len(swapPositions) > 1 { idx2 = rand.Intn(n) }\<close> of
  \<open>generateNeighborFromBaseLayoutWithUppercaseInfo\<close>.\<close>

partial_function (option) redrawMany :: "nat \<Rightarrow> nat \<Rightarrow> nat \<Rightarrow> rng \<Rightarrow> (nat \<times> rng) option" where
  "redrawMany n idx1 idx2 g =
     (if idx2 = idx1 \<and> n > 1 then redrawMany n idx1 (fst (Intn n g)) (snd (Intn n g))
      else Some (idx2, g))"

text \<open>The list \<open>swappablePositions\<close> of \<open>generateNeighbor\<close>.\<close>

definition swappablePositions :: "GoLib \<Rightarrow> Layout \<Rightarrow> KeyboardConfig \<Rightarrow> (nat \<times> nat) list" where
  "swappablePositions lib layout config =
     (let hasUppercase = hasUppercaseLetters lib layout
      in filter (\<lambda>(row, col).
                   if hasUppercase then \<not> isUppercase lib (Keys layout row col)
                   else FixedPositions config row col = [46]
                        \<and> \<not> isUppercase lib (Keys layout row col))
                positions)"

definition generateNeighbor :: "GoLib \<Rightarrow> Layout \<Rightarrow> KeyboardConfig \<Rightarrow> rng \<Rightarrow> (Layout \<times> rng) option" where
  "generateNeighbor lib layout config g =
     (let neighbor = layout;
          swappable = swappablePositions lib layout config
      in if length swappable < 2 then Some (neighbor, g)
         else let (idx1, g) = Intn (length swappable) g;
                  (idx2, g) = Intn (length swappable) g
              in case redraw (length swappable) idx1 idx2 g of
                   None \<Rightarrow> None
                 | Some (idx2, g) \<Rightarrow>
                     Some (swapKeys neighbor (swappable ! idx1) (swappable ! idx2), g))"

text \<open>The list \<open>swapPositions\<close> of \<open>generateNeighborFromBaseLayoutWithUppercaseInfo\<close>. The
  function also collects the characters of the base layout in \<open>uniqueChars\<close> and
  \<open>chars\<close>, which it never reads.\<close>

definition swapPositions ::
  "GoLib \<Rightarrow> Layout \<Rightarrow> KeyboardConfig \<Rightarrow> Layout \<Rightarrow> (nat \<Rightarrow> nat \<Rightarrow> bool) \<Rightarrow> (nat \<times> nat) list" where
  "swapPositions lib layout config baseLayout uppercasePositions =
     (let hasUppercase = list_ex (\<lambda>(row, col). uppercasePositions row col) positions
      in filter (\<lambda>(row, col).
                   if hasUppercase
                   then Keys layout row col \<noteq> [] \<and> Keys layout row col \<noteq> [32]
                        \<and> \<not> uppercasePositions row col
                   else FixedPositions config row col = [46]
                        \<and> Keys layout row col \<noteq> [] \<and> Keys layout row col \<noteq> [32]
                        \<and> \<not> isUppercase lib (Keys baseLayout row col))
                positions)"

definition generateNeighborFromBaseLayoutWithUppercaseInfo ::
  "GoLib \<Rightarrow> Layout \<Rightarrow> KeyboardConfig \<Rightarrow> Layout \<Rightarrow> (nat \<Rightarrow> nat \<Rightarrow> bool) \<Rightarrow> rng
     \<Rightarrow> (Layout \<times> rng) option" where
  "generateNeighborFromBaseLayoutWithUppercaseInfo lib layout config baseLayout uppercasePositions g =
     (let neighbor = layout;
          swaps = swapPositions lib layout config baseLayout uppercasePositions
      in if length swaps < 2 then Some (neighbor, g)
         else let (idx1, g) = Intn (length swaps) g;
                  (idx2, g) = Intn (length swaps) g
              in case redrawMany (length swaps) idx1 idx2 g of
                   None \<Rightarrow> None
                 | Some (idx2, g) \<Rightarrow>
                     Some (swapKeys neighbor (swaps ! idx1) (swaps ! idx2), g))"

text \<open>\<open>sortResultsByScore\<close>: for every \<open>i\<close> and every \<open>j > i\<close>, the entries at \<open>i\<close> and
  \<open>j\<close> are exchanged when the one at \<open>j\<close> has the smaller score.\<close>

definition innerStep :: "nat \<Rightarrow> nat \<Rightarrow> SimulatedAnnealingResult list \<Rightarrow> SimulatedAnnealingResult list" where
  "innerStep i j results =
     (if Score (results ! j) < Score (results ! i)
      then results[i := results ! j, j := results ! i]
      else results)"

definition sortInner :: "nat \<Rightarrow> SimulatedAnnealingResult list \<Rightarrow> SimulatedAnnealingResult list" where
  "sortInner i results = fold (innerStep i) [i + 1..<length results] results"

definition sortResultsByScore :: "SimulatedAnnealingResult list \<Rightarrow> SimulatedAnnealingResult list" where
  "sortResultsByScore results = fold sortInner [0..<length results] results"

text \<open>The truncation \<open>if numBest > 0 && len(bestResults) > numBest\<close>.\<close>

definition truncateBest :: "int \<Rightarrow> SimulatedAnnealingResult list \<Rightarrow> SimulatedAnnealingResult list" where
  "truncateBest numBest bestResults =
     (if numBest > 0 \<and> int (length bestResults) > numBest
      then take (nat numBest) bestResults else bestResults)"

text \<open>The local variables of one restart.\<close>

record AnnealState =
  currentLayout :: Layout
  currentAnalysis :: LayoutAnalysis
  currentScore :: real
  bestLayoutRestart :: Layout
  bestScoreRestart :: real
  bestAnalysisRestart :: LayoutAnalysis
  temperature :: real
  rngState :: rng

text \<open>The test \<open>delta < 0 || rand.Float64() < math.Exp(-delta/temperature)\<close>: the random
  number is drawn only when \<open>delta\<close> is not negative. With \<open>temperature\<close> equal to 0 the
  quotient of the source is minus infinity or not a number, and the comparison is false.\<close>

definition acceptNeighbor :: "real \<Rightarrow> real \<Rightarrow> rng \<Rightarrow> bool \<times> rng" where
  "acceptNeighbor delta temp g =
     (if delta < 0 then (True, g)
      else let (u, g) = Float64 g
           in (temp \<noteq> 0 \<and> u < exp (- delta / temp), g))"

text \<open>One iteration of the annealing loop of \<open>SearchOptimalLayoutFromSpecificLayout\<close>.\<close>

definition annealStep ::
  "GoLib \<Rightarrow> KeyboardConfig \<Rightarrow> LanguageData \<Rightarrow> SimulatedAnnealingParams \<Rightarrow> Layout
     \<Rightarrow> (nat \<Rightarrow> nat \<Rightarrow> bool) \<Rightarrow> AnnealState \<Rightarrow> AnnealState option" where
  "annealStep lib config langData params lowercaseStartLayout uppercasePositions st =
     (case generateNeighborFromBaseLayoutWithUppercaseInfo lib (currentLayout st) config
             lowercaseStartLayout uppercasePositions (rngState st) of
        None \<Rightarrow> None
      | Some (neighborLayout, g) \<Rightarrow>
          let neighborAnalysis = AnalyzeLayout neighborLayout config langData;
              neighborScore = WeightedScore neighborAnalysis;
              delta = neighborScore - currentScore st;
              (accept, g) = acceptNeighbor delta (temperature st) g;
              st = st\<lparr>rngState := g\<rparr>;
              st = (if accept
                    then let st = st\<lparr>currentLayout := neighborLayout,
                                     currentAnalysis := neighborAnalysis,
                                     currentScore := neighborScore\<rparr>
                         in if currentScore st < bestScoreRestart st
                            then st\<lparr>bestLayoutRestart := currentLayout st,
                                    bestScoreRestart := currentScore st,
                                    bestAnalysisRestart := currentAnalysis st\<rparr>
                            else st
                    else st)
          in Some (st\<lparr>temperature := temperature st * CoolingRate params\<rparr>))"

text \<open>The loop \<open>for iter := 0; iter < params.Iterations; iter++\<close>, with the number of
  rounds still to run.\<close>

fun annealLoop ::
  "GoLib \<Rightarrow> KeyboardConfig \<Rightarrow> LanguageData \<Rightarrow> SimulatedAnnealingParams \<Rightarrow> Layout
     \<Rightarrow> (nat \<Rightarrow> nat \<Rightarrow> bool) \<Rightarrow> nat \<Rightarrow> AnnealState \<Rightarrow> AnnealState option" where
  "annealLoop lib config langData params lowercaseStartLayout uppercasePositions 0 st = Some st"
| "annealLoop lib config langData params lowercaseStartLayout uppercasePositions (Suc k) st =
     (case annealStep lib config langData params lowercaseStartLayout uppercasePositions st of
        None \<Rightarrow> None
      | Some st \<Rightarrow>
          annealLoop lib config langData params lowercaseStartLayout uppercasePositions k st)"

text \<open>The body of the restart loop up to the result of the restart: the start layout,
  its analysis, the annealing loop, and the result that is appended.\<close>

definition runRestart ::
  "GoLib \<Rightarrow> KeyboardConfig \<Rightarrow> LanguageData \<Rightarrow> SimulatedAnnealingParams \<Rightarrow> Layout
     \<Rightarrow> (nat \<Rightarrow> nat \<Rightarrow> bool) \<Rightarrow> nat \<Rightarrow> SimulatedAnnealingResult list \<Rightarrow> rng
     \<Rightarrow> (SimulatedAnnealingResult \<times> rng) option" where
  "runRestart lib config langData params lowercaseStartLayout uppercasePositions restart bestResults g =
     (let currentLayout = lowercaseStartLayout;
          currentLayout =
            (if restart > 0
             then let bestOfPrevious = currentLayout;
                      bestOfPrevious = (if length bestResults > 0 then Layout (bestResults ! 0)
                                        else bestOfPrevious)
                  in bestOfPrevious
             else currentLayout);
          currentAnalysis = AnalyzeLayout currentLayout config langData;
          currentScore = WeightedScore currentAnalysis;
          st = \<lparr>currentLayout = currentLayout, currentAnalysis = currentAnalysis,
                currentScore = currentScore, bestLayoutRestart = currentLayout,
                bestScoreRestart = currentScore, bestAnalysisRestart = currentAnalysis,
                temperature = InitialTemp params, rngState = g\<rparr>
      in case annealLoop lib config langData params lowercaseStartLayout uppercasePositions
                (nat (Iterations params)) st of
           None \<Rightarrow> None
         | Some st \<Rightarrow>
             Some (\<lparr>Layout = bestLayoutRestart st, Analysis = bestAnalysisRestart st,
                    Score = bestScoreRestart st\<rparr>, rngState st))"

text \<open>The loop \<open>for restart := 0; restart < params.Restarts; restart++\<close>: \<open>k\<close> restarts are
  still to run, the next one has the number \<open>restart\<close>.\<close>

fun restartLoop ::
  "GoLib \<Rightarrow> KeyboardConfig \<Rightarrow> LanguageData \<Rightarrow> SimulatedAnnealingParams \<Rightarrow> int \<Rightarrow> Layout
     \<Rightarrow> (nat \<Rightarrow> nat \<Rightarrow> bool) \<Rightarrow> nat \<Rightarrow> nat \<Rightarrow> SimulatedAnnealingResult list \<Rightarrow> rng
     \<Rightarrow> (SimulatedAnnealingResult list \<times> rng) option" where
  "restartLoop lib config langData params numBest lowercaseStartLayout uppercasePositions
     0 restart bestResults g = Some (bestResults, g)"
| "restartLoop lib config langData params numBest lowercaseStartLayout uppercasePositions
     (Suc k) restart bestResults g =
     (case runRestart lib config langData params lowercaseStartLayout uppercasePositions
             restart bestResults g of
        None \<Rightarrow> None
      | Some (result, g) \<Rightarrow>
          restartLoop lib config langData params numBest lowercaseStartLayout uppercasePositions
            k (Suc restart) (truncateBest numBest (sortResultsByScore (bestResults @ [result]))) g)"

text \<open>\<open>SearchOptimalLayoutFromSpecificLayout\<close>; its parameter \<open>layouts\<close> is never read.\<close>

definition SearchOptimalLayoutFromSpecificLayout ::
  "GoLib \<Rightarrow> KeyboardConfig \<Rightarrow> LanguageData \<Rightarrow> SimulatedAnnealingParams \<Rightarrow> int \<Rightarrow> Layout
     \<Rightarrow> SimulatedAnnealingResult list option" where
  "SearchOptimalLayoutFromSpecificLayout lib config langData params numBest startLayout =
     (let g = Seed lib (RandomSeed params);
          (lowercaseStartLayout, uppercasePositions) = createLowercaseLayout lib startLayout
      in case restartLoop lib config langData params numBest lowercaseStartLayout
                uppercasePositions (nat (Restarts params)) 0 [] g of
           None \<Rightarrow> None
         | Some (bestResults, g) \<Rightarrow> Some (truncateBest numBest bestResults))"

section \<open>Quantities of the search named by the specification\<close>

text \<open>A non-empty key: neither the empty string nor a blank.\<close>

definition nonEmptyKey :: "gostring \<Rightarrow> bool" where
  "nonEmptyKey key \<longleftrightarrow> key \<noteq> [] \<and> key \<noteq> [32]"

text \<open>The positions the seeded neighbour generator treats as unlocked: when the seed had an
  uppercase letter, the positions without one; otherwise the positions that the fixed-position
  mask marks with a dot (and whose base key is not uppercase).\<close>

definition seededUnlocked ::
  "GoLib \<Rightarrow> KeyboardConfig \<Rightarrow> Layout \<Rightarrow> (nat \<Rightarrow> nat \<Rightarrow> bool) \<Rightarrow> nat \<times> nat \<Rightarrow> bool" where
  "seededUnlocked lib config baseLayout uppercasePositions pos \<longleftrightarrow>
     (if (\<exists>row col. row < 3 \<and> col < 10 \<and> uppercasePositions row col)
      then \<not> uppercasePositions (fst pos) (snd pos)
      else FixedPositions config (fst pos) (snd pos) = [46]
           \<and> \<not> isUppercase lib (Keys baseLayout (fst pos) (snd pos)))"

text \<open>The eligible positions of the seeded generator: on the grid, unlocked and non-empty.\<close>

definition seededEligible ::
  "GoLib \<Rightarrow> KeyboardConfig \<Rightarrow> Layout \<Rightarrow> (nat \<Rightarrow> nat \<Rightarrow> bool) \<Rightarrow> Layout \<Rightarrow> (nat \<times> nat) set" where
  "seededEligible lib config baseLayout uppercasePositions layout =
     {pos. fst pos < 3 \<and> snd pos < 10
           \<and> seededUnlocked lib config baseLayout uppercasePositions pos
           \<and> nonEmptyKey (Keys layout (fst pos) (snd pos))}"

text \<open>The positions \<open>generateNeighbor\<close> treats as unlocked: when the layout has an uppercase
  letter, the positions without one; otherwise the positions that the mask marks with a
  dot.\<close>

definition plainUnlocked :: "GoLib \<Rightarrow> KeyboardConfig \<Rightarrow> Layout \<Rightarrow> nat \<times> nat \<Rightarrow> bool" where
  "plainUnlocked lib config layout pos \<longleftrightarrow>
     (if (\<exists>row col. row < 3 \<and> col < 10 \<and> isUppercase lib (Keys layout row col))
      then \<not> isUppercase lib (Keys layout (fst pos) (snd pos))
      else FixedPositions config (fst pos) (snd pos) = [46])"

definition plainUnlockedSet :: "GoLib \<Rightarrow> KeyboardConfig \<Rightarrow> Layout \<Rightarrow> (nat \<times> nat) set" where
  "plainUnlockedSet lib config layout =
     {pos. fst pos < 3 \<and> snd pos < 10 \<and> plainUnlocked lib config layout pos}"

text \<open>The eligible positions in the words of the specification, for \<open>generateNeighbor\<close>:
  unlocked and non-empty.\<close>

definition plainEligible :: "GoLib \<Rightarrow> KeyboardConfig \<Rightarrow> Layout \<Rightarrow> (nat \<times> nat) set" where
  "plainEligible lib config layout =
     {pos. pos \<in> plainUnlockedSet lib config layout \<and> nonEmptyKey (Keys layout (fst pos) (snd pos))}"

text \<open>The resolved lock set of a seeded search: the positions of the uppercase letters of
  the seed when it has any, otherwise the positions that the fixed-position mask does not
  mark with a dot.\<close>

definition lockedPosition :: "GoLib \<Rightarrow> KeyboardConfig \<Rightarrow> Layout \<Rightarrow> nat \<Rightarrow> nat \<Rightarrow> bool" where
  "lockedPosition lib config startLayout row col \<longleftrightarrow>
     (if (\<exists>r c. r < 3 \<and> c < 10 \<and> isUppercase lib (Keys startLayout r c))
      then isUppercase lib (Keys startLayout row col)
      else FixedPositions config row col \<noteq> [46])"



text \<open>The result of a restart that ends on the layout \<open>layout\<close>.\<close>

definition resultOf :: "KeyboardConfig \<Rightarrow> LanguageData \<Rightarrow> Layout \<Rightarrow> SimulatedAnnealingResult" where
  "resultOf config langData layout =
     \<lparr>Layout = layout, Analysis = AnalyzeLayout layout config langData,
      Score = WeightedScore (AnalyzeLayout layout config langData)\<rparr>"

section \<open>Example inputs of the search\<close>

text \<open>The library on ASCII strings: the uppercase letters are the runes 65 to 90, and
  \<open>strings.ToLower\<close> adds 32 to each of them. The random source seeded with \<open>seed\<close> yields
  \<open>seed, seed + 1, seed + 2, \<dots>\<close>.\<close>

definition asciiLib :: GoLib where
  "asciiLib = \<lparr>IsUpper = (\<lambda>r. 65 \<le> r \<and> r \<le> 90),
                ToLower = map (\<lambda>r. if 65 \<le> r \<and> r \<le> 90 then r + 32 else r),
                Seed = (\<lambda>seed. siterate Suc (nat seed))\<rparr>"

text \<open>A layout with the single letter a, on the first key of the top row.\<close>

definition exLayoutOne :: Layout where
  "exLayoutOne = \<lparr>Name = [], Keys = mkKeys [((0, 0), [97])], PreComments = [], PostComments = []\<rparr>"

text \<open>A configuration whose mask fixes every position (\<open>"x"\<close>).\<close>

definition exConfigFixed :: KeyboardConfig where
  "exConfigFixed = exConfig\<lparr>FixedPositions := (\<lambda>_ _. [120])\<rparr>"

text \<open>A seed with the uppercase letter A on the first key and the letter b on the second key
  of the top row.\<close>

definition exSeedUpper :: Layout where
  "exSeedUpper = \<lparr>Name = [], Keys = mkKeys [((0, 0), [65]), ((0, 1), [98])],
     PreComments = [], PostComments = []\<rparr>"

text \<open>One restart without iterations.\<close>

definition exParams0 :: SimulatedAnnealingParams where
  "exParams0 = \<lparr>InitialTemp = 1000, CoolingRate = 1 / 2, Iterations = 0, Restarts = 1,
     RandomSeed = 0\<rparr>"

text \<open>A layout that holds, at every locked position of the grid, the key of the lower-cased
  seed.\<close>

definition keepsLocked :: "GoLib \<Rightarrow> KeyboardConfig \<Rightarrow> Layout \<Rightarrow> Layout \<Rightarrow> bool" where
  "keepsLocked lib config startLayout layout \<longleftrightarrow>
     (\<forall>row col. row < 3 \<and> col < 10 \<and> lockedPosition lib config startLayout row col \<longrightarrow>
        Keys layout row col = Keys (fst (createLowercaseLayout lib startLayout)) row col)"

text \<open>A seed with the uppercase letter A and the letters c and b on the first three keys of
  the top row; a configuration in which the second key of the top row costs 1 and every
  other key 2; a corpus with the single letter b; a search with two restarts of one
  iteration each.\<close>

definition exSeed3 :: Layout where
  "exSeed3 = \<lparr>Name = [], Keys = mkKeys [((0, 0), [65]), ((0, 1), [99]), ((0, 2), [98])],
     PreComments = [], PostComments = []\<rparr>"

definition exConfig2 :: KeyboardConfig where
  "exConfig2 = \<lparr>EffortMatrix = (\<lambda>row col. if row = 0 \<and> col = 1 then 1 else 2),
     FixedPositions = (\<lambda>_ _. [46]),
     MaxFingerEfforts = (\<lambda>_. 0), FingerEffortPenalties = (\<lambda>_. 0), MaxRowEfforts = (\<lambda>_. 0),
     RowEffortPenalties = (\<lambda>_. 0), Weights = exWeights, BigramIndividualCoeffs = []\<rparr>"

definition exLang2 :: LanguageData where
  "exLang2 = \<lparr>Language = [], Characters = [([98], 1)], Bigrams = []\<rparr>"

definition exParams1 :: SimulatedAnnealingParams where
  "exParams1 = \<lparr>InitialTemp = 0, CoolingRate = 1 / 2, Iterations = 1, Restarts = 2,
     RandomSeed = 2\<rparr>"

text \<open>The layouts with a, c, b and with a, b, c on the first three keys of the top row.\<close>

definition exLayoutACB :: Layout where
  "exLayoutACB = \<lparr>Name = [], Keys = mkKeys [((0, 0), [97]), ((0, 1), [99]), ((0, 2), [98])],
     PreComments = [], PostComments = []\<rparr>"

definition exLayoutABC :: Layout where
  "exLayoutABC = \<lparr>Name = [], Keys = mkKeys [((0, 0), [97]), ((0, 1), [98]), ((0, 2), [99])],
     PreComments = [], PostComments = []\<rparr>"




section \<open>The key table and the grid\<close>

lemma positions_set: "set positions = {(r, c). r < 3 \<and> c < 10}"
  by (auto simp: positions_def)

lemma fold_keyPos_cases:
  "fold (\<lambda>(row, col) keyPos.
             let key = Keys layout row col
             in if key \<noteq> [] then keyPos(key \<mapsto> (row, col)) else keyPos) ps m k = Some p
   \<Longrightarrow> (p \<in> set ps \<and> Keys layout (fst p) (snd p) = k \<and> k \<noteq> []) \<or> m k = Some p"
proof (induction ps arbitrary: m)
  case Nil
  then show ?case by simp
next
  case (Cons q ps)
  obtain r c where q: "q = (r, c)" by (cases q)
  let ?m' = "if Keys layout r c \<noteq> [] then m(Keys layout r c \<mapsto> (r, c)) else m"
  from Cons.prems have "fold (\<lambda>(row, col) keyPos.
             let key = Keys layout row col
             in if key \<noteq> [] then keyPos(key \<mapsto> (row, col)) else keyPos) ps ?m' k = Some p"
    by (simp add: q Let_def)
  from Cons.IH[OF this]
  have "(p \<in> set ps \<and> Keys layout (fst p) (snd p) = k \<and> k \<noteq> []) \<or> ?m' k = Some p" .
  then show ?case
    by (cases "Keys layout r c = k") (auto simp: q split: if_splits)
qed

lemma buildKeyPos_in_grid:
  assumes "buildKeyPos layout k = Some (row, col)"
  shows "row < 3 \<and> col < 10 \<and> Keys layout row col = k \<and> k \<noteq> []"
proof -
  have "((row, col) \<in> set positions \<and> Keys layout row col = k \<and> k \<noteq> [])"
    using fold_keyPos_cases[of layout positions Map.empty k "(row, col)"] assms
    unfolding buildKeyPos_def by simp
  then show ?thesis by (simp add: positions_set)
qed

lemma upt_3: "[0..<3] = [0, 1, 2]" by code_simp
lemma upt_8: "[0..<8] = [0, 1, 2, 3, 4, 5, 6, 7]" by code_simp
lemma upt_2: "[0..<2] = [0, 1]" by code_simp

section \<open>Load percentages\<close>

lemma sum_fun_upd_add:
  fixes f :: "nat \<Rightarrow> real"
  assumes "i < n"
  shows "(\<Sum>j<n. (f(i := f i + x)) j) = (\<Sum>j<n. f j) + x"
proof -
  have "(\<Sum>j<n. (f(i := f i + x)) j) = (\<Sum>j<n. f j + (if j = i then x else 0))"
    by (rule sum.cong) auto
  also have "\<dots> = (\<Sum>j<n. f j) + (\<Sum>j<n. if j = i then x else 0)"
    by (simp add: sum.distrib)
  also have "(\<Sum>j<n. if j = i then x else 0) = x"
    using assms by simp
  finally show ?thesis .
qed

lemma matchedFreq_snoc:
  "matchedFreq keyPos (chars @ [(char, freq)]) =
     matchedFreq keyPos chars + (case keyPos char of None \<Rightarrow> 0 | Some _ \<Rightarrow> freq)"
  by (simp add: matchedFreq_def)

lemma effortTotals_snd: "snd (effortTotals config keyPos chars) = matchedFreq keyPos chars"
proof (induction chars rule: rev_induct)
  case Nil
  then show ?case by (simp add: effortTotals_def matchedFreq_def)
next
  case (snoc a chars)
  obtain char freq where a: "a = (char, freq)" by (cases a)
  have "effortTotals config keyPos (chars @ [a]) =
      (case keyPos char of
         None \<Rightarrow> effortTotals config keyPos chars
       | Some (row, col) \<Rightarrow>
           (fst (effortTotals config keyPos chars) + EffortMatrix config row col * freq,
            snd (effortTotals config keyPos chars) + freq))"
    by (simp add: effortTotals_def a split: prod.splits option.splits)
  then show ?case using snoc.IH
    by (simp add: a matchedFreq_snoc split: option.splits)
qed

lemma rowTotals_sum:
  assumes "\<And>k row col. keyPos k = Some (row, col) \<Longrightarrow> row < 3"
  shows "(\<Sum>j<3. snd (rowTotals config keyPos chars) j) = matchedFreq keyPos chars"
proof (induction chars rule: rev_induct)
  case Nil
  then show ?case by (simp add: rowTotals_def matchedFreq_def)
next
  case (snoc a chars)
  obtain char freq where a: "a = (char, freq)" by (cases a)
  let ?rf = "snd (rowTotals config keyPos chars)"
  show ?case
  proof (cases "keyPos char")
    case None
    then have "rowTotals config keyPos (chars @ [a]) = rowTotals config keyPos chars"
      by (simp add: rowTotals_def a split: prod.splits)
    then show ?thesis using snoc.IH None by (simp add: a matchedFreq_snoc)
  next
    case (Some p)
    obtain row col where p: "p = (row, col)" by (cases p)
    have "row < 3" using assms Some p by blast
    then have "(\<Sum>j<3. (?rf(row := ?rf row + freq)) j) = (\<Sum>j<3. ?rf j) + freq"
      by (rule sum_fun_upd_add)
    moreover have "snd (rowTotals config keyPos (chars @ [a])) = ?rf(row := ?rf row + freq)"
      using Some p by (simp add: rowTotals_def a split: prod.splits)
    ultimately show ?thesis using snoc.IH Some by (simp only: a matchedFreq_snoc option.case)
  qed
qed

lemma finger_lt_8: "col < 10 \<Longrightarrow> getFingerForKey row col < 8"
proof -
  assume "col < 10"
  then have "col \<in> {0, 1, 2, 3, 4, 5, 6, 7, 8, 9}" by auto
  then show ?thesis by (auto simp: getFingerForKey_def fingerMap_def)
qed

lemma fingerTotals_sum:
  assumes "\<And>k row col. keyPos k = Some (row, col) \<Longrightarrow> col < 10"
  shows "(\<Sum>j<8. fingerTotals keyPos chars j) = matchedFreq keyPos chars"
proof (induction chars rule: rev_induct)
  case Nil
  then show ?case by (simp add: fingerTotals_def matchedFreq_def)
next
  case (snoc a chars)
  obtain char freq where a: "a = (char, freq)" by (cases a)
  let ?ff = "fingerTotals keyPos chars"
  show ?case
  proof (cases "keyPos char")
    case None
    then have "fingerTotals keyPos (chars @ [a]) = ?ff"
      by (simp add: fingerTotals_def a)
    then show ?thesis using snoc.IH None by (simp add: a matchedFreq_snoc)
  next
    case (Some p)
    obtain row col where p: "p = (row, col)" by (cases p)
    let ?f = "getFingerForKey row col"
    have "col < 10" using assms Some p by blast
    then have lt: "?f < 8" by (rule finger_lt_8)
    then have "(\<Sum>j<8. (?ff(?f := ?ff ?f + freq)) j) = (\<Sum>j<8. ?ff j) + freq"
      by (rule sum_fun_upd_add)
    moreover have "fingerTotals keyPos (chars @ [a]) = ?ff(?f := ?ff ?f + freq)"
      using Some p lt by (simp add: fingerTotals_def a Let_def)
    ultimately show ?thesis using snoc.IH Some by (simp only: a matchedFreq_snoc option.case)
  qed
qed

lemma halfTotals_sum:
  "(\<Sum>j<2. halfTotals keyPos chars j) = matchedFreq keyPos chars"
proof (induction chars rule: rev_induct)
  case Nil
  then show ?case by (simp add: halfTotals_def matchedFreq_def)
next
  case (snoc a chars)
  obtain char freq where a: "a = (char, freq)" by (cases a)
  let ?hf = "halfTotals keyPos chars"
  show ?case
  proof (cases "keyPos char")
    case None
    then have "halfTotals keyPos (chars @ [a]) = ?hf"
      by (simp add: halfTotals_def a)
    then show ?thesis using snoc.IH None by (simp add: a matchedFreq_snoc)
  next
    case (Some p)
    obtain row col where p: "p = (row, col)" by (cases p)
    let ?h = "getHalf col"
    have lt: "?h < 2" by (simp add: getHalf_def)
    then have "(\<Sum>j<2. (?hf(?h := ?hf ?h + freq)) j) = (\<Sum>j<2. ?hf j) + freq"
      by (rule sum_fun_upd_add)
    moreover have "halfTotals keyPos (chars @ [a]) = ?hf(?h := ?hf ?h + freq)"
      using Some p by (simp add: halfTotals_def a Let_def)
    ultimately show ?thesis using snoc.IH Some by (simp only: a matchedFreq_snoc option.case)
  qed
qed


lemma calculateEffort_other [simp]:
  "BigramAnalysis (calculateEffort l c d kp a) = BigramAnalysis a"
  "LayoutName (calculateEffort l c d kp a) = LayoutName a"
  "Config (calculateEffort l c d kp a) = Config a"
  "LayoutIndex (calculateEffort l c d kp a) = LayoutIndex a"
  by (simp_all add: calculateEffort_def Let_def upt_3 upt_8 upt_2 split: prod.splits)

lemma calculateEffort_rows:
  "EffortByRow (calculateEffort l c d kp a) =
     (let t = snd (effortTotals c kp (Characters d)); rf = snd (rowTotals c kp (Characters d))
      in if t > 0 then (EffortByRow a)(0 := rf 0 / t * 100, 1 := rf 1 / t * 100, 2 := rf 2 / t * 100)
         else EffortByRow a)"
  by (simp add: calculateEffort_def Let_def upt_3 upt_8 upt_2 split: prod.splits)

lemma calculateEffort_fingers:
  "EffortByFinger (calculateEffort l c d kp a) =
     (let t = snd (effortTotals c kp (Characters d)); ff = fingerTotals kp (Characters d)
      in if t > 0 then (EffortByFinger a)(0 := ff 0 / t * 100, 1 := ff 1 / t * 100, 2 := ff 2 / t * 100,
            3 := ff 3 / t * 100, 4 := ff 4 / t * 100, 5 := ff 5 / t * 100, 6 := ff 6 / t * 100,
            7 := ff 7 / t * 100)
         else EffortByFinger a)"
  by (simp add: calculateEffort_def Let_def upt_3 upt_8 upt_2 split: prod.splits)

lemma calculateEffort_halves:
  "EffortByHalf (calculateEffort l c d kp a) =
     (let t = snd (effortTotals c kp (Characters d)); hf = halfTotals kp (Characters d)
      in if t > 0 then (EffortByHalf a)(0 := hf 0 / t * 100, 1 := hf 1 / t * 100)
         else EffortByHalf a)"
  by (simp add: calculateEffort_def Let_def upt_3 upt_8 upt_2 split: prod.splits)

lemma calculateEffort_total:
  "TotalEffort (calculateEffort l c d kp a) =
     (let t = snd (effortTotals c kp (Characters d)); e = fst (effortTotals c kp (Characters d))
      in if t > 0 then e / t / uniformEffort c * 100 else TotalEffort a)"
  by (simp add: calculateEffort_def Let_def upt_3 upt_8 upt_2 split: prod.splits)

lemma calculateBigrams_other [simp]:
  "EffortByRow (calculateBigrams l c d kp a) = EffortByRow a"
  "EffortByFinger (calculateBigrams l c d kp a) = EffortByFinger a"
  "EffortByHalf (calculateBigrams l c d kp a) = EffortByHalf a"
  "TotalEffort (calculateBigrams l c d kp a) = TotalEffort a"
  "LayoutName (calculateBigrams l c d kp a) = LayoutName a"
  "Config (calculateBigrams l c d kp a) = Config a"
  by (simp_all add: calculateBigrams_def Let_def)

lemma AnalyzeLayout_effort:
  "EffortByRow (AnalyzeLayout l c d) = EffortByRow (calculateEffort l c d (buildKeyPos l) (newAnalysis l c))"
  "EffortByFinger (AnalyzeLayout l c d) = EffortByFinger (calculateEffort l c d (buildKeyPos l) (newAnalysis l c))"
  "EffortByHalf (AnalyzeLayout l c d) = EffortByHalf (calculateEffort l c d (buildKeyPos l) (newAnalysis l c))"
  "TotalEffort (AnalyzeLayout l c d) = TotalEffort (calculateEffort l c d (buildKeyPos l) (newAnalysis l c))"
  by (simp_all add: AnalyzeLayout_def calculateWeightedScore_def Let_def)

lemma AnalyzeLayout_bigrams:
  "BigramAnalysis (AnalyzeLayout l c d) =
     BigramAnalysis (calculateBigrams l c d (buildKeyPos l) (newAnalysis l c))"
  by (simp add: AnalyzeLayout_def calculateWeightedScore_def Let_def calculateBigrams_def)

lemma sum_lt_3: "(\<Sum>i<3. (f::nat \<Rightarrow> real) i) = f 0 + f 1 + f 2"
proof -
  have "{..<3::nat} = {0, 1, 2}" by auto
  then show ?thesis by simp
qed

lemma sum_lt_2: "(\<Sum>i<2. (f::nat \<Rightarrow> real) i) = f 0 + f 1"
proof -
  have "{..<2::nat} = {0, 1}" by auto
  then show ?thesis by simp
qed

lemma sum_lt_8: "(\<Sum>i<8. (f::nat \<Rightarrow> real) i) = f 0 + f 1 + f 2 + f 3 + f 4 + f 5 + f 6 + f 7"
proof -
  have "{..<8::nat} = {0, 1, 2, 3, 4, 5, 6, 7}" by auto
  then show ?thesis by simp
qed

lemma percent_3:
  fixes t :: real
  assumes "0 < t" "a + b + c = t"
  shows "a / t * 100 + b / t * 100 + c / t * 100 = 100"
proof -
  have "a / t * 100 + b / t * 100 + c / t * 100 = (a + b + c) / t * 100"
    by (simp add: add_divide_distrib distrib_right)
  then show ?thesis using assms by simp
qed

lemma percent_2:
  fixes t :: real
  assumes "0 < t" "a + b = t"
  shows "a / t * 100 + b / t * 100 = 100"
proof -
  have "a / t * 100 + b / t * 100 = (a + b) / t * 100"
    by (simp add: add_divide_distrib distrib_right)
  then show ?thesis using assms by simp
qed

lemma percent_8:
  fixes t :: real
  assumes "0 < t" "a + b + c + d + e + f + g + h = t"
  shows "a / t * 100 + b / t * 100 + c / t * 100 + d / t * 100 + e / t * 100 + f / t * 100
         + g / t * 100 + h / t * 100 = 100"
proof -
  have "a / t * 100 + b / t * 100 + c / t * 100 + d / t * 100 + e / t * 100 + f / t * 100
         + g / t * 100 + h / t * 100 = (a + b + c + d + e + f + g + h) / t * 100"
    by (simp add: add_divide_distrib distrib_right)
  then show ?thesis using assms by simp
qed

text \<open>
  C7. Whenever the total matched character frequency (the \<open>totalFreq\<close> of
  \<open>calculateEffort\<close>) is positive, the three row percentages of the analysis sum to 100
  (in particular within \<open>1e-6\<close>), the eight finger percentages sum to 100 and the two half
  percentages sum to 100.
\<close>

theorem load_percentages_sum_to_100:
  assumes "0 < snd (effortTotals config (buildKeyPos layout) (Characters langData))"
  shows "\<bar>(\<Sum>row<3. EffortByRow (AnalyzeLayout layout config langData) row) - 100\<bar> \<le> 1 / 10 ^ 6
       \<and> (\<Sum>finger<8. EffortByFinger (AnalyzeLayout layout config langData) finger) = 100
       \<and> (\<Sum>half<2. EffortByHalf (AnalyzeLayout layout config langData) half) = 100"
proof -
  let ?kp = "buildKeyPos layout"
  let ?t = "snd (effortTotals config ?kp (Characters langData))"
  let ?rf = "snd (rowTotals config ?kp (Characters langData))"
  let ?ff = "fingerTotals ?kp (Characters langData)"
  let ?hf = "halfTotals ?kp (Characters langData)"
  have t: "?t = matchedFreq ?kp (Characters langData)" by (rule effortTotals_snd)
  have grid: "\<And>k row col. ?kp k = Some (row, col) \<Longrightarrow> row < 3"
    "\<And>k row col. ?kp k = Some (row, col) \<Longrightarrow> col < 10"
    using buildKeyPos_in_grid by blast+
  have r: "?rf 0 + ?rf 1 + ?rf 2 = ?t"
    using rowTotals_sum[of ?kp config "Characters langData"] grid(1) t by (simp add: sum_lt_3)
  have f: "?ff 0 + ?ff 1 + ?ff 2 + ?ff 3 + ?ff 4 + ?ff 5 + ?ff 6 + ?ff 7 = ?t"
    using fingerTotals_sum[of ?kp "Characters langData"] grid(2) t by (simp add: sum_lt_8)
  have h: "?hf 0 + ?hf 1 = ?t"
    using halfTotals_sum[of ?kp "Characters langData"] t by (simp add: sum_lt_2)
  have rows: "(\<Sum>row<3. EffortByRow (AnalyzeLayout layout config langData) row) = 100"
    using assms percent_3[OF assms r]
    by (simp add: AnalyzeLayout_effort calculateEffort_rows Let_def sum_lt_3)
  have fingers: "(\<Sum>finger<8. EffortByFinger (AnalyzeLayout layout config langData) finger) = 100"
    using assms percent_8[OF assms f]
    by (simp add: AnalyzeLayout_effort calculateEffort_fingers Let_def sum_lt_8)
  have halves: "(\<Sum>half<2. EffortByHalf (AnalyzeLayout layout config langData) half) = 100"
    using assms percent_2[OF assms h]
    by (simp add: AnalyzeLayout_effort calculateEffort_halves Let_def sum_lt_2)
  show ?thesis using rows fingers halves by simp
qed


section \<open>Evaluation of the example inputs\<close>

lemma positions_eq: "positions =
  [(0,0),(0,1),(0,2),(0,3),(0,4),(0,5),(0,6),(0,7),(0,8),(0,9),
   (1,0),(1,1),(1,2),(1,3),(1,4),(1,5),(1,6),(1,7),(1,8),(1,9),
   (2,0),(2,1),(2,2),(2,3),(2,4),(2,5),(2,6),(2,7),(2,8),(2,9)]"
  by code_simp

lemma buildKeyPos_exLayout:
  "buildKeyPos exLayout = [[97] \<mapsto> (0, 0), [98] \<mapsto> (0, 1)]"
  by (simp add: buildKeyPos_def positions_eq exLayout_def mkKeys_def)

lemma exLayout_totalFreq:
  "effortTotals exConfig (buildKeyPos exLayout) (Characters exLang) = (4, 4)"
  by (simp add: buildKeyPos_exLayout effortTotals_def exLang_def exConfig_def)

theorem load_percentages_sum_to_100_witness:
  "0 < snd (effortTotals exConfig (buildKeyPos exLayout) (Characters exLang))
   \<and> \<bar>(\<Sum>row<3. EffortByRow (AnalyzeLayout exLayout exConfig exLang) row) - 100\<bar> \<le> 1 / 10 ^ 6
   \<and> (\<Sum>finger<8. EffortByFinger (AnalyzeLayout exLayout exConfig exLang) finger) = 100
   \<and> (\<Sum>half<2. EffortByHalf (AnalyzeLayout exLayout exConfig exLang) half) = 100"
proof -
  have h: "0 < snd (effortTotals exConfig (buildKeyPos exLayout) (Characters exLang))"
    by (simp add: exLayout_totalFreq)
  show ?thesis using h load_percentages_sum_to_100[OF h] by simp
qed

section \<open>AFI and AFO\<close>

text \<open>
  C10. A bigram reaches the AFI/AFO statement when both keys are on the same half
  (the enclosing \<open>if half1 == half2\<close>), in the same row and in adjacent columns. Then the
  two distances to the centre line differ, and the frequency is added to exactly one of
  \<open>afi\<close> and \<open>afo\<close>: the branch that adds to neither is not taken.
\<close>

theorem adjacent_bigram_in_exactly_one_of_AFI_AFO:
  assumes "getHalf col1 = getHalf col2" and "row1 = row2" and "colDiff col1 col2 = 1"
  shows "centerDist col1 \<noteq> centerDist col2
     \<and> (countAF row1 col1 row2 col2 freq s = s\<lparr>afi := afi s + freq\<rparr>
        \<or> countAF row1 col1 row2 col2 freq s = s\<lparr>afo := afo s + freq\<rparr>)"
proof -
  have d: "int col1 - int col2 = 1 \<or> int col2 - int col1 = 1"
    using assms(3) by (simp add: colDiff_def abs_int_def split: if_splits)
  have ne: "col1 + col2 \<noteq> 9"
    using assms(1) d by (auto simp: getHalf_def split: if_splits)
  have neq: "centerDist col1 \<noteq> centerDist col2"
    using d ne by (auto simp: centerDist_def abs_if split: if_splits)
  then show ?thesis using assms(2,3)
    by (auto simp: countAF_def Let_def)
qed


theorem adjacent_bigram_in_exactly_one_of_AFI_AFO_witness:
  "getHalf 0 = getHalf 1 \<and> (0::nat) = 0 \<and> colDiff 0 1 = 1
   \<and> centerDist 0 \<noteq> centerDist 1
   \<and> (countAF 0 0 0 1 1 zeroSums = zeroSums\<lparr>afi := afi zeroSums + 1\<rparr>
      \<or> countAF 0 0 0 1 1 zeroSums = zeroSums\<lparr>afo := afo zeroSums + 1\<rparr>)"
proof -
  have h1: "getHalf 0 = getHalf 1" by (simp add: getHalf_def)
  have h2: "(0::nat) = 0" by simp
  have h3: "colDiff 0 1 = 1" by (simp add: colDiff_def abs_int_def)
  show ?thesis
    using h1 h3 adjacent_bigram_in_exactly_one_of_AFI_AFO[OF h1 h2 h3, of 1 zeroSums] by simp
qed

section \<open>The bigram loop: what each statement changes\<close>

lemma run_simps [simp]: "run [] s = s" "run (stmt # stmts) s = run stmts (stmt s)"
  by (simp_all add: run_def)

lemma countSHB_frame [simp]:
  "totalBigramFreq (countSHB col1 col2 freq s) = totalBigramFreq s"
  "tib (countSHB col1 col2 freq s) = tib s"
  "hsb (countSHB col1 col2 freq s) = hsb s"
  "hsb2 (countSHB col1 col2 freq s) = hsb2 s"
  "fsb (countSHB col1 col2 freq s) = fsb s"
  "fsb2 (countSHB col1 col2 freq s) = fsb2 s"
  "lsb (countSHB col1 col2 freq s) = lsb s"
  "lsb2 (countSHB col1 col2 freq s) = lsb2 s"
  by (simp_all add: countSHB_def)

lemma countSFB_frame [simp]:
  "totalBigramFreq (countSFB row1 col1 row2 col2 freq s) = totalBigramFreq s"
  "tib (countSFB row1 col1 row2 col2 freq s) = tib s"
  "hsb (countSFB row1 col1 row2 col2 freq s) = hsb s"
  "hsb2 (countSFB row1 col1 row2 col2 freq s) = hsb2 s"
  "fsb (countSFB row1 col1 row2 col2 freq s) = fsb s"
  "fsb2 (countSFB row1 col1 row2 col2 freq s) = fsb2 s"
  "lsb (countSFB row1 col1 row2 col2 freq s) = lsb s"
  "lsb2 (countSFB row1 col1 row2 col2 freq s) = lsb2 s"
  by (simp_all add: countSFB_def)

lemma countHVB_frame [simp]:
  "totalBigramFreq (countHVB row1 col1 row2 col2 freq s) = totalBigramFreq s"
  "tib (countHVB row1 col1 row2 col2 freq s) = tib s"
  "hsb (countHVB row1 col1 row2 col2 freq s) = hsb s"
  "hsb2 (countHVB row1 col1 row2 col2 freq s) = hsb2 s"
  "fsb (countHVB row1 col1 row2 col2 freq s) = fsb s"
  "fsb2 (countHVB row1 col1 row2 col2 freq s) = fsb2 s"
  "lsb (countHVB row1 col1 row2 col2 freq s) = lsb s"
  "lsb2 (countHVB row1 col1 row2 col2 freq s) = lsb2 s"
  by (simp_all add: countHVB_def)

lemma countFVB_frame [simp]:
  "totalBigramFreq (countFVB row1 col1 row2 col2 freq s) = totalBigramFreq s"
  "tib (countFVB row1 col1 row2 col2 freq s) = tib s"
  "hsb (countFVB row1 col1 row2 col2 freq s) = hsb s"
  "hsb2 (countFVB row1 col1 row2 col2 freq s) = hsb2 s"
  "fsb (countFVB row1 col1 row2 col2 freq s) = fsb s"
  "fsb2 (countFVB row1 col1 row2 col2 freq s) = fsb2 s"
  "lsb (countFVB row1 col1 row2 col2 freq s) = lsb s"
  "lsb2 (countFVB row1 col1 row2 col2 freq s) = lsb2 s"
  by (simp_all add: countFVB_def)

lemma countHDB_frame [simp]:
  "totalBigramFreq (countHDB row1 col1 row2 col2 freq s) = totalBigramFreq s"
  "tib (countHDB row1 col1 row2 col2 freq s) = tib s"
  "hsb (countHDB row1 col1 row2 col2 freq s) = hsb s"
  "hsb2 (countHDB row1 col1 row2 col2 freq s) = hsb2 s"
  "fsb (countHDB row1 col1 row2 col2 freq s) = fsb s"
  "fsb2 (countHDB row1 col1 row2 col2 freq s) = fsb2 s"
  "lsb (countHDB row1 col1 row2 col2 freq s) = lsb s"
  "lsb2 (countHDB row1 col1 row2 col2 freq s) = lsb2 s"
  by (simp_all add: countHDB_def)

lemma countFDB_frame [simp]:
  "totalBigramFreq (countFDB row1 col1 row2 col2 freq s) = totalBigramFreq s"
  "tib (countFDB row1 col1 row2 col2 freq s) = tib s"
  "hsb (countFDB row1 col1 row2 col2 freq s) = hsb s"
  "hsb2 (countFDB row1 col1 row2 col2 freq s) = hsb2 s"
  "fsb (countFDB row1 col1 row2 col2 freq s) = fsb s"
  "fsb2 (countFDB row1 col1 row2 col2 freq s) = fsb2 s"
  "lsb (countFDB row1 col1 row2 col2 freq s) = lsb s"
  "lsb2 (countFDB row1 col1 row2 col2 freq s) = lsb2 s"
  by (simp_all add: countFDB_def)

lemma countHFB_frame [simp]:
  "totalBigramFreq (countHFB row1 col1 row2 col2 freq s) = totalBigramFreq s"
  "tib (countHFB row1 col1 row2 col2 freq s) = tib s"
  "hsb (countHFB row1 col1 row2 col2 freq s) = hsb s"
  "hsb2 (countHFB row1 col1 row2 col2 freq s) = hsb2 s"
  "fsb (countHFB row1 col1 row2 col2 freq s) = fsb s"
  "fsb2 (countHFB row1 col1 row2 col2 freq s) = fsb2 s"
  "lsb (countHFB row1 col1 row2 col2 freq s) = lsb s"
  "lsb2 (countHFB row1 col1 row2 col2 freq s) = lsb2 s"
  by (simp_all add: countHFB_def)

lemma countSRB_frame [simp]:
  "totalBigramFreq (countSRB row1 col1 row2 col2 freq s) = totalBigramFreq s"
  "tib (countSRB row1 col1 row2 col2 freq s) = tib s"
  "hsb (countSRB row1 col1 row2 col2 freq s) = hsb s"
  "hsb2 (countSRB row1 col1 row2 col2 freq s) = hsb2 s"
  "fsb (countSRB row1 col1 row2 col2 freq s) = fsb s"
  "fsb2 (countSRB row1 col1 row2 col2 freq s) = fsb2 s"
  "lsb (countSRB row1 col1 row2 col2 freq s) = lsb s"
  "lsb2 (countSRB row1 col1 row2 col2 freq s) = lsb2 s"
  by (simp_all add: countSRB_def)

lemma countSKB_frame [simp]:
  "totalBigramFreq (countSKB sameChar freq s) = totalBigramFreq s"
  "tib (countSKB sameChar freq s) = tib s"
  "hsb (countSKB sameChar freq s) = hsb s"
  "hsb2 (countSKB sameChar freq s) = hsb2 s"
  "fsb (countSKB sameChar freq s) = fsb s"
  "fsb2 (countSKB sameChar freq s) = fsb2 s"
  "lsb (countSKB sameChar freq s) = lsb s"
  "lsb2 (countSKB sameChar freq s) = lsb2 s"
  by (simp_all add: countSKB_def)

lemma countHSB_frame [simp]:
  "totalBigramFreq (countHSB config row1 col1 row2 col2 freq s) = totalBigramFreq s"
  "tib (countHSB config row1 col1 row2 col2 freq s) = tib s"
  "fsb (countHSB config row1 col1 row2 col2 freq s) = fsb s"
  "fsb2 (countHSB config row1 col1 row2 col2 freq s) = fsb2 s"
  "lsb (countHSB config row1 col1 row2 col2 freq s) = lsb s"
  "lsb2 (countHSB config row1 col1 row2 col2 freq s) = lsb2 s"
  by (simp_all add: countHSB_def)

lemma countFSB_frame [simp]:
  "totalBigramFreq (countFSB config row1 col1 row2 col2 freq s) = totalBigramFreq s"
  "tib (countFSB config row1 col1 row2 col2 freq s) = tib s"
  "hsb (countFSB config row1 col1 row2 col2 freq s) = hsb s"
  "hsb2 (countFSB config row1 col1 row2 col2 freq s) = hsb2 s"
  "lsb (countFSB config row1 col1 row2 col2 freq s) = lsb s"
  "lsb2 (countFSB config row1 col1 row2 col2 freq s) = lsb2 s"
  by (simp_all add: countFSB_def)

lemma countLSB_frame [simp]:
  "totalBigramFreq (countLSB config row1 col1 row2 col2 freq s) = totalBigramFreq s"
  "tib (countLSB config row1 col1 row2 col2 freq s) = tib s"
  "hsb (countLSB config row1 col1 row2 col2 freq s) = hsb s"
  "hsb2 (countLSB config row1 col1 row2 col2 freq s) = hsb2 s"
  "fsb (countLSB config row1 col1 row2 col2 freq s) = fsb s"
  "fsb2 (countLSB config row1 col1 row2 col2 freq s) = fsb2 s"
  by (simp_all add: countLSB_def)

lemma countAF_frame [simp]:
  "totalBigramFreq (countAF row1 col1 row2 col2 freq s) = totalBigramFreq s"
  "tib (countAF row1 col1 row2 col2 freq s) = tib s"
  "hsb (countAF row1 col1 row2 col2 freq s) = hsb s"
  "hsb2 (countAF row1 col1 row2 col2 freq s) = hsb2 s"
  "fsb (countAF row1 col1 row2 col2 freq s) = fsb s"
  "fsb2 (countAF row1 col1 row2 col2 freq s) = fsb2 s"
  "lsb (countAF row1 col1 row2 col2 freq s) = lsb s"
  "lsb2 (countAF row1 col1 row2 col2 freq s) = lsb2 s"
  by (simp_all add: countAF_def Let_def)

lemma countHSB_sum:
  "hsb (countHSB config row1 col1 row2 col2 freq s) + hsb2 (countHSB config row1 col1 row2 col2 freq s)
     = hsb s + hsb2 s + (if isHSBPattern row1 col1 row2 col2 then freq else 0)"
  by (simp add: countHSB_def)

lemma countFSB_sum:
  "fsb (countFSB config row1 col1 row2 col2 freq s) + fsb2 (countFSB config row1 col1 row2 col2 freq s)
     = fsb s + fsb2 s + (if isFSBPattern row1 col1 row2 col2 then freq else 0)"
  by (simp add: countFSB_def)

lemma countLSB_sum:
  "lsb (countLSB config row1 col1 row2 col2 freq s) + lsb2 (countLSB config row1 col1 row2 col2 freq s)
     = lsb s + lsb2 s + (if isLSBPattern col1 col2 then freq else 0)"
  by (simp add: countLSB_def)

lemma fold_tib:
  "fold (\<lambda>coeff s. if P coeff then s\<lparr>tib := tib s + freq * Coeff coeff\<rparr> else s) cs s
     = s\<lparr>tib := tib s + (\<Sum>c \<leftarrow> filter P cs. freq * Coeff c)\<rparr>"
  by (induction cs arbitrary: s) (simp_all add: add.assoc)

lemma countTIB_eq:
  "countTIB config row1 col1 row2 col2 freq s =
     s\<lparr>tib := tib s + (\<Sum>c \<leftarrow> filter (\<lambda>c. Pos1 c = int row1 * 10 + int col1
                                        \<and> Pos2 c = int row2 * 10 + int col2)
                              (BigramIndividualCoeffs config). freq * Coeff c)\<rparr>"
  by (simp add: countTIB_def Let_def fold_tib)


lemma countSameHalf_frame [simp]:
  "totalBigramFreq (countSameHalf config row1 col1 row2 col2 freq s) = totalBigramFreq s"
  "tib (countSameHalf config row1 col1 row2 col2 freq s) = tib s"
  by (simp_all add: countSameHalf_def)

lemma classifyBigram_total:
  "totalBigramFreq (classifyBigram config row1 col1 row2 col2 sameChar freq s) = totalBigramFreq s + freq"
  by (simp add: classifyBigram_def countTIB_eq)

lemma classifyBigram_tib:
  "tib (classifyBigram config row1 col1 row2 col2 sameChar freq s) =
     tib s + (\<Sum>c \<leftarrow> filter (\<lambda>c. Pos1 c = int row1 * 10 + int col1
                                        \<and> Pos2 c = int row2 * 10 + int col2)
                              (BigramIndividualCoeffs config). freq * Coeff c)"
  by (simp add: classifyBigram_def countTIB_eq)

lemma classifyBigram_hsb:
  "hsb (classifyBigram config row1 col1 row2 col2 sameChar freq s)
     + hsb2 (classifyBigram config row1 col1 row2 col2 sameChar freq s) =
   hsb s + hsb2 s
     + (if getHalf col1 = getHalf col2 \<and> isHSBPattern row1 col1 row2 col2 then freq else 0)"
  by (simp add: classifyBigram_def countTIB_eq countSameHalf_def countHSB_sum)

lemma classifyBigram_fsb:
  "fsb (classifyBigram config row1 col1 row2 col2 sameChar freq s)
     + fsb2 (classifyBigram config row1 col1 row2 col2 sameChar freq s) =
   fsb s + fsb2 s
     + (if getHalf col1 = getHalf col2 \<and> isFSBPattern row1 col1 row2 col2 then freq else 0)"
  by (simp add: classifyBigram_def countTIB_eq countSameHalf_def countFSB_sum)

lemma classifyBigram_lsb:
  "lsb (classifyBigram config row1 col1 row2 col2 sameChar freq s)
     + lsb2 (classifyBigram config row1 col1 row2 col2 sameChar freq s) =
   lsb s + lsb2 s
     + (if getHalf col1 = getHalf col2 \<and> isLSBPattern col1 col2 then freq else 0)"
  by (simp add: classifyBigram_def countTIB_eq countSameHalf_def countLSB_sum)


section \<open>The empty corpus\<close>

lemma calculateMEP_zero:
  "EffortByFinger a = (\<lambda>_. 0) \<Longrightarrow> EffortByRow a = (\<lambda>_. 0) \<Longrightarrow> calculateMEP a c = 0"
  by (simp add: calculateMEP_def upt_8 upt_3 Let_def)

text \<open>
  C9. On a corpus whose character and bigram maps are empty, \<open>AnalyzeLayout\<close> returns the
  analysis in which every number is zero: total effort, the row, finger and half
  percentages, every bigram value, HDI, FDI, MEP and the weighted score. Only the name of
  the layout and the reference to the configuration are set. The function has no error
  result and no statement that can panic on this input, so the model is a total function.
\<close>

theorem empty_corpus_all_zero:
  "AnalyzeLayout layout config (emptyCorpus langData) =
     \<lparr>LayoutName = Name layout, LayoutIndex = 0, TotalEffort = 0, EffortByRow = (\<lambda>_. 0),
      EffortByFinger = (\<lambda>_. 0), EffortByHalf = (\<lambda>_. 0),
      BigramAnalysis = \<lparr>SHB = 0, SFB = 0, HVB = 0, FVB = 0, HDB = 0, FDB = 0, HFB = 0, HSB = 0,
        FSB = 0, LSB = 0, SRB = 0, AFI = 0, AFO = 0, HSB2 = 0, FSB2 = 0, LSB2 = 0, SKB = 0,
        TIB = 0\<rparr>,
      HDI = 0, FDI = 0, MEP = 0, WeightedScore = 0, Config = config\<rparr>"
proof -
  let ?d = "emptyCorpus langData"
  let ?kp = "buildKeyPos layout"
  have e: "calculateEffort layout config ?d ?kp (newAnalysis layout config) = newAnalysis layout config"
    by (simp add: calculateEffort_def emptyCorpus_def effortTotals_def rowTotals_def
        fingerTotals_def halfTotals_def)
  have b: "calculateBigrams layout config ?d ?kp (newAnalysis layout config) = newAnalysis layout config"
    by (simp add: calculateBigrams_def emptyCorpus_def bigramSums_def zeroSums_def
        newAnalysis_def zeroBigramAnalysis_def)
  show ?thesis
    unfolding AnalyzeLayout_def Let_def e b
    by (simp add: newAnalysis_def zeroBigramAnalysis_def calculateFDI_def calculateMEP_zero
        calculateWeightedScore_def)
qed


section \<open>The bigram loop as sums over the matched bigrams\<close>

lemma bigramSums_snoc:
  "bigramSums config keyPos (bigrams @ [bf]) tib0 =
     bigramStep config keyPos bf (bigramSums config keyPos bigrams tib0)"
  by (simp add: bigramSums_def)

lemma bigramStep_match:
  "bigramStep config keyPos bf s =
     (case matchBigram keyPos bf of
        None \<Rightarrow> s
      | Some (pos1, pos2, freq) \<Rightarrow>
          classifyBigram config (fst pos1) (snd pos1) (fst pos2) (snd pos2)
            ([fst bf ! 0] = [fst bf ! 1]) freq s)"
  by (simp add: bigramStep_def matchBigram_def Let_def split: option.splits)

lemma matchedBigrams_snoc:
  "matchedBigrams keyPos (bigrams @ [bf]) =
     matchedBigrams keyPos bigrams @ (case matchBigram keyPos bf of None \<Rightarrow> [] | Some m \<Rightarrow> [m])"
  by (simp add: matchedBigrams_def map_filter_def split: option.splits)

lemma bigramSums_total:
  "totalBigramFreq (bigramSums config keyPos bigrams tib0) = matchedBigramFreq keyPos bigrams"
proof (induction bigrams rule: rev_induct)
  case Nil
  then show ?case
    by (simp add: bigramSums_def zeroSums_def matchedBigramFreq_def matchedBigrams_def map_filter_def)
next
  case (snoc bf bigrams)
  then show ?case
    by (simp add: bigramSums_snoc bigramStep_match matchedBigrams_snoc matchedBigramFreq_def
        classifyBigram_total split: option.splits)
qed

lemma bigramSums_tib:
  "tib (bigramSums config keyPos bigrams tib0) = tib0 + rawTIB config keyPos bigrams"
proof (induction bigrams rule: rev_induct)
  case Nil
  then show ?case
    by (simp add: bigramSums_def zeroSums_def rawTIB_def matchedBigrams_def map_filter_def)
next
  case (snoc bf bigrams)
  then show ?case
    by (simp add: bigramSums_snoc bigramStep_match matchedBigrams_snoc rawTIB_def overrides_def
        classifyBigram_tib split: option.splits)
qed

lemma bigramSums_hsb:
  "hsb (bigramSums config keyPos bigrams tib0) + hsb2 (bigramSums config keyPos bigrams tib0)
     = hsbMass keyPos bigrams"
proof (induction bigrams rule: rev_induct)
  case Nil
  then show ?case
    by (simp add: bigramSums_def zeroSums_def hsbMass_def matchedBigrams_def map_filter_def)
next
  case (snoc bf bigrams)
  show ?case
  proof (cases "matchBigram keyPos bf")
    case None
    then show ?thesis using snoc
      by (simp add: bigramSums_snoc bigramStep_match matchedBigrams_snoc hsbMass_def)
  next
    case (Some m)
    obtain pos1 pos2 freq where m: "m = (pos1, pos2, freq)" by (cases m)
    show ?thesis using snoc Some
      by (simp add: bigramSums_snoc bigramStep_match matchedBigrams_snoc hsbMass_def m
          classifyBigram_hsb)
  qed
qed

lemma bigramSums_fsb:
  "fsb (bigramSums config keyPos bigrams tib0) + fsb2 (bigramSums config keyPos bigrams tib0)
     = fsbMass keyPos bigrams"
proof (induction bigrams rule: rev_induct)
  case Nil
  then show ?case
    by (simp add: bigramSums_def zeroSums_def fsbMass_def matchedBigrams_def map_filter_def)
next
  case (snoc bf bigrams)
  show ?case
  proof (cases "matchBigram keyPos bf")
    case None
    then show ?thesis using snoc
      by (simp add: bigramSums_snoc bigramStep_match matchedBigrams_snoc fsbMass_def)
  next
    case (Some m)
    obtain pos1 pos2 freq where m: "m = (pos1, pos2, freq)" by (cases m)
    show ?thesis using snoc Some
      by (simp add: bigramSums_snoc bigramStep_match matchedBigrams_snoc fsbMass_def m
          classifyBigram_fsb)
  qed
qed

lemma bigramSums_lsb:
  "lsb (bigramSums config keyPos bigrams tib0) + lsb2 (bigramSums config keyPos bigrams tib0)
     = lsbMass keyPos bigrams"
proof (induction bigrams rule: rev_induct)
  case Nil
  then show ?case
    by (simp add: bigramSums_def zeroSums_def lsbMass_def matchedBigrams_def map_filter_def)
next
  case (snoc bf bigrams)
  show ?case
  proof (cases "matchBigram keyPos bf")
    case None
    then show ?thesis using snoc
      by (simp add: bigramSums_snoc bigramStep_match matchedBigrams_snoc lsbMass_def)
  next
    case (Some m)
    obtain pos1 pos2 freq where m: "m = (pos1, pos2, freq)" by (cases m)
    show ?thesis using snoc Some
      by (simp add: bigramSums_snoc bigramStep_match matchedBigrams_snoc lsbMass_def m
          classifyBigram_lsb)
  qed
qed

lemma calculateBigrams_fresh:
  "BigramAnalysis (calculateBigrams l c d kp (newAnalysis l c')) =
     (let s = bigramSums c kp (Bigrams d) 0; t = totalBigramFreq s
      in if t > 0
         then \<lparr>SHB = shb s / t * 100, SFB = sfb s / t * 100, HVB = hvb s / t * 100,
               FVB = fvb s / t * 100, HDB = hdb s / t * 100, FDB = fdb s / t * 100,
               HFB = hfb s / t * 100, HSB = hsb s / t * 100, FSB = fsb s / t * 100,
               LSB = lsb s / t * 100, SRB = srb s / t * 100, AFI = afi s / t * 100,
               AFO = afo s / t * 100, HSB2 = hsb2 s / t * 100, FSB2 = fsb2 s / t * 100,
               LSB2 = lsb2 s / t * 100, SKB = skb s / t * 100, TIB = tib s / t * 100\<rparr>
         else zeroBigramAnalysis\<lparr>TIB := tib s\<rparr>)"
  by (simp add: calculateBigrams_def Let_def newAnalysis_def zeroBigramAnalysis_def)

lemma percent_pair:
  fixes t :: real
  shows "a / t * 100 + b / t * 100 = (a + b) / t * 100"
  by (simp add: add_divide_distrib distrib_right)

lemma AnalyzeLayout_HSB_sum:
  "HSB (BigramAnalysis (AnalyzeLayout layout config langData))
     + HSB2 (BigramAnalysis (AnalyzeLayout layout config langData)) =
   (if 0 < matchedBigramFreq (buildKeyPos layout) (Bigrams langData)
    then hsbMass (buildKeyPos layout) (Bigrams langData)
           / matchedBigramFreq (buildKeyPos layout) (Bigrams langData) * 100
    else 0)"
proof -
  let ?s = "bigramSums config (buildKeyPos layout) (Bigrams langData) 0"
  let ?t = "matchedBigramFreq (buildKeyPos layout) (Bigrams langData)"
  let ?b = "BigramAnalysis (AnalyzeLayout layout config langData)"
  have p: "HSB ?b = (if 0 < ?t then hsb ?s / ?t * 100 else 0)"
    by (simp add: AnalyzeLayout_bigrams calculateBigrams_fresh Let_def bigramSums_total
        zeroBigramAnalysis_def)
  have q: "HSB2 ?b = (if 0 < ?t then hsb2 ?s / ?t * 100 else 0)"
    by (simp add: AnalyzeLayout_bigrams calculateBigrams_fresh Let_def bigramSums_total
        zeroBigramAnalysis_def)
  have "hsb ?s / ?t * 100 + hsb2 ?s / ?t * 100 = hsbMass (buildKeyPos layout) (Bigrams langData) / ?t * 100"
    unfolding percent_pair bigramSums_hsb ..
  then show ?thesis unfolding p q by simp
qed

lemma AnalyzeLayout_FSB_sum:
  "FSB (BigramAnalysis (AnalyzeLayout layout config langData))
     + FSB2 (BigramAnalysis (AnalyzeLayout layout config langData)) =
   (if 0 < matchedBigramFreq (buildKeyPos layout) (Bigrams langData)
    then fsbMass (buildKeyPos layout) (Bigrams langData)
           / matchedBigramFreq (buildKeyPos layout) (Bigrams langData) * 100
    else 0)"
proof -
  let ?s = "bigramSums config (buildKeyPos layout) (Bigrams langData) 0"
  let ?t = "matchedBigramFreq (buildKeyPos layout) (Bigrams langData)"
  let ?b = "BigramAnalysis (AnalyzeLayout layout config langData)"
  have p: "FSB ?b = (if 0 < ?t then fsb ?s / ?t * 100 else 0)"
    by (simp add: AnalyzeLayout_bigrams calculateBigrams_fresh Let_def bigramSums_total
        zeroBigramAnalysis_def)
  have q: "FSB2 ?b = (if 0 < ?t then fsb2 ?s / ?t * 100 else 0)"
    by (simp add: AnalyzeLayout_bigrams calculateBigrams_fresh Let_def bigramSums_total
        zeroBigramAnalysis_def)
  have "fsb ?s / ?t * 100 + fsb2 ?s / ?t * 100 = fsbMass (buildKeyPos layout) (Bigrams langData) / ?t * 100"
    unfolding percent_pair bigramSums_fsb ..
  then show ?thesis unfolding p q by simp
qed

lemma AnalyzeLayout_LSB_sum:
  "LSB (BigramAnalysis (AnalyzeLayout layout config langData))
     + LSB2 (BigramAnalysis (AnalyzeLayout layout config langData)) =
   (if 0 < matchedBigramFreq (buildKeyPos layout) (Bigrams langData)
    then lsbMass (buildKeyPos layout) (Bigrams langData)
           / matchedBigramFreq (buildKeyPos layout) (Bigrams langData) * 100
    else 0)"
proof -
  let ?s = "bigramSums config (buildKeyPos layout) (Bigrams langData) 0"
  let ?t = "matchedBigramFreq (buildKeyPos layout) (Bigrams langData)"
  let ?b = "BigramAnalysis (AnalyzeLayout layout config langData)"
  have p: "LSB ?b = (if 0 < ?t then lsb ?s / ?t * 100 else 0)"
    by (simp add: AnalyzeLayout_bigrams calculateBigrams_fresh Let_def bigramSums_total
        zeroBigramAnalysis_def)
  have q: "LSB2 ?b = (if 0 < ?t then lsb2 ?s / ?t * 100 else 0)"
    by (simp add: AnalyzeLayout_bigrams calculateBigrams_fresh Let_def bigramSums_total
        zeroBigramAnalysis_def)
  have "lsb ?s / ?t * 100 + lsb2 ?s / ?t * 100 = lsbMass (buildKeyPos layout) (Bigrams langData) / ?t * 100"
    unfolding percent_pair bigramSums_lsb ..
  then show ?thesis unfolding p q by simp
qed

text \<open>
  C8. For any two settings of the strict-mode flags of a configuration (in particular a
  flag set to 1 against the same flag cleared to 0), the analyses of the same layout and
  corpus have the same HSB + HSB2, the same FSB + FSB2 and the same LSB + LSB2: a strict
  flag moves bigram mass between the primary and the secondary bucket only.
\<close>

theorem strict_flags_preserve_bucket_totals:
  "HSB (BigramAnalysis (AnalyzeLayout layout (withStrictModes config h f l) langData))
     + HSB2 (BigramAnalysis (AnalyzeLayout layout (withStrictModes config h f l) langData))
   = HSB (BigramAnalysis (AnalyzeLayout layout (withStrictModes config h' f' l') langData))
     + HSB2 (BigramAnalysis (AnalyzeLayout layout (withStrictModes config h' f' l') langData))
   \<and> FSB (BigramAnalysis (AnalyzeLayout layout (withStrictModes config h f l) langData))
     + FSB2 (BigramAnalysis (AnalyzeLayout layout (withStrictModes config h f l) langData))
   = FSB (BigramAnalysis (AnalyzeLayout layout (withStrictModes config h' f' l') langData))
     + FSB2 (BigramAnalysis (AnalyzeLayout layout (withStrictModes config h' f' l') langData))
   \<and> LSB (BigramAnalysis (AnalyzeLayout layout (withStrictModes config h f l) langData))
     + LSB2 (BigramAnalysis (AnalyzeLayout layout (withStrictModes config h f l) langData))
   = LSB (BigramAnalysis (AnalyzeLayout layout (withStrictModes config h' f' l') langData))
     + LSB2 (BigramAnalysis (AnalyzeLayout layout (withStrictModes config h' f' l') langData))"
  by (simp only: AnalyzeLayout_HSB_sum AnalyzeLayout_FSB_sum AnalyzeLayout_LSB_sum)


section \<open>TIB and the weighted score\<close>

lemma calculateWeightedScore_fields [simp]:
  "TotalEffort (calculateWeightedScore c a) = TotalEffort a"
  "BigramAnalysis (calculateWeightedScore c a) = BigramAnalysis a"
  "HDI (calculateWeightedScore c a) = HDI a"
  "FDI (calculateWeightedScore c a) = FDI a"
  "MEP (calculateWeightedScore c a) = MEP a"
  by (simp_all add: calculateWeightedScore_def Let_def)

lemma AnalyzeLayout_score:
  "WeightedScore (AnalyzeLayout layout config langData) =
     (let a = AnalyzeLayout layout config langData; w = Weights config; b = BigramAnalysis a
      in TotalEffortNorm w * TotalEffort a
         + W_SHB w * SHB b + W_SFB w * SFB b + W_HVB w * HVB b + W_FVB w * FVB b
         + W_HDB w * HDB b + W_FDB w * FDB b + W_HFB w * HFB b + W_HSB w * HSB b
         + W_FSB w * FSB b + W_LSB w * LSB b + W_SRB w * SRB b + W_AFI w * AFI b
         + W_AFO w * AFO b + TIB b
         + W_HDI w * HDI a + W_FDI w * FDI a + MEP a)"
proof -
  obtain a' where a': "AnalyzeLayout layout config langData = calculateWeightedScore config a'"
    by (simp add: AnalyzeLayout_def Let_def)
  show ?thesis unfolding a' Let_def calculateWeightedScore_fields
    by (simp add: calculateWeightedScore_def Let_def)
qed

text \<open>
  C1 (as amended). When the total matched bigram frequency is positive, the TIB value of
  the analysis is the sum of \<open>freq * override_coefficient\<close> over the matched bigrams and the
  explicit overrides of their ordered position pairs, divided by the total matched bigram
  frequency and multiplied by 100, like every other bigram value; that normalised value
  enters the weighted score as an additive term with no weight of its own.
\<close>

theorem TIB_is_normalised_override_sum:
  assumes "0 < matchedBigramFreq (buildKeyPos layout) (Bigrams langData)"
  shows "TIB (BigramAnalysis (AnalyzeLayout layout config langData)) =
           rawTIB config (buildKeyPos layout) (Bigrams langData)
             / matchedBigramFreq (buildKeyPos layout) (Bigrams langData) * 100
       \<and> WeightedScore (AnalyzeLayout layout config langData) =
          (let a = AnalyzeLayout layout config langData; w = Weights config; b = BigramAnalysis a
           in TotalEffortNorm w * TotalEffort a
              + W_SHB w * SHB b + W_SFB w * SFB b + W_HVB w * HVB b + W_FVB w * FVB b
              + W_HDB w * HDB b + W_FDB w * FDB b + W_HFB w * HFB b + W_HSB w * HSB b
              + W_FSB w * FSB b + W_LSB w * LSB b + W_SRB w * SRB b + W_AFI w * AFI b
              + W_AFO w * AFO b + TIB b
              + W_HDI w * HDI a + W_FDI w * FDI a + MEP a)"
proof -
  have "TIB (BigramAnalysis (AnalyzeLayout layout config langData)) =
           rawTIB config (buildKeyPos layout) (Bigrams langData)
             / matchedBigramFreq (buildKeyPos layout) (Bigrams langData) * 100"
    using assms
    by (simp add: AnalyzeLayout_bigrams calculateBigrams_fresh Let_def bigramSums_total
        bigramSums_tib)
  then show ?thesis using AnalyzeLayout_score[of layout config langData] by simp
qed

lemma getFingerForKey_eval:
  "getFingerForKey r 0 = 0" "getFingerForKey r 1 = 1" "getFingerForKey r 2 = 2"
  "getFingerForKey r 3 = 3" "getFingerForKey r 4 = 3" "getFingerForKey r 5 = 4"
  "getFingerForKey r 6 = 4" "getFingerForKey r 7 = 5" "getFingerForKey r 8 = 6"
  "getFingerForKey r 9 = 7" "getFingerForKey r (Suc 0) = 1"
  by (simp_all add: getFingerForKey_def fingerMap_def)

lemma exLayout_matched:
  "matchedBigrams (buildKeyPos exLayout) (Bigrams exLang) = [((0, 0), (0, 1), 2)]"
  by (simp add: matchedBigrams_def map_filter_def matchBigram_def buildKeyPos_exLayout exLang_def)

lemma exLayout_bigramSums_tib:
  "tib (bigramSums exConfig (buildKeyPos exLayout) (Bigrams exLang) 0) = 6"
  by (simp add: bigramSums_def bigramStep_def buildKeyPos_exLayout exLang_def Let_def
      classifyBigram_tib zeroSums_def exConfig_def)

lemma exLayout_bigramSums_total:
  "totalBigramFreq (bigramSums exConfig (buildKeyPos exLayout) (Bigrams exLang) 0) = 2"
  by (simp add: bigramSums_def bigramStep_def buildKeyPos_exLayout exLang_def Let_def
      classifyBigram_total zeroSums_def)

text \<open>
  C1 as stated fails: with the bigram ab of frequency 2 on positions 0 and 1 and the
  override coefficient 3 for that pair, the raw sum is 6, and the TIB of the analysis is
  \<open>6 / 2 * 100 = 300\<close>.
\<close>

theorem TIB_raw_sum_counterexample:
  "0 < matchedBigramFreq (buildKeyPos exLayout) (Bigrams exLang)
   \<and> rawTIB exConfig (buildKeyPos exLayout) (Bigrams exLang) = 6
   \<and> TIB (BigramAnalysis (AnalyzeLayout exLayout exConfig exLang)) = 300"
proof -
  have 1: "0 < matchedBigramFreq (buildKeyPos exLayout) (Bigrams exLang)"
    by (simp add: matchedBigramFreq_def exLayout_matched)
  have 2: "rawTIB exConfig (buildKeyPos exLayout) (Bigrams exLang) = 6"
    by (simp add: rawTIB_def exLayout_matched overrides_def exConfig_def)
  have 3: "TIB (BigramAnalysis (AnalyzeLayout exLayout exConfig exLang)) = 300"
    by (simp add: AnalyzeLayout_bigrams calculateBigrams_fresh Let_def exLayout_bigramSums_tib
        exLayout_bigramSums_total)
  show ?thesis using 1 2 3 by simp
qed

theorem TIB_is_normalised_override_sum_witness:
  "0 < matchedBigramFreq (buildKeyPos exLayout) (Bigrams exLang)
   \<and> TIB (BigramAnalysis (AnalyzeLayout exLayout exConfig exLang)) =
           rawTIB exConfig (buildKeyPos exLayout) (Bigrams exLang)
             / matchedBigramFreq (buildKeyPos exLayout) (Bigrams exLang) * 100
   \<and> WeightedScore (AnalyzeLayout exLayout exConfig exLang) =
          (let a = AnalyzeLayout exLayout exConfig exLang; w = Weights exConfig; b = BigramAnalysis a
           in TotalEffortNorm w * TotalEffort a
              + W_SHB w * SHB b + W_SFB w * SFB b + W_HVB w * HVB b + W_FVB w * FVB b
              + W_HDB w * HDB b + W_FDB w * FDB b + W_HFB w * HFB b + W_HSB w * HSB b
              + W_FSB w * FSB b + W_LSB w * LSB b + W_SRB w * SRB b + W_AFI w * AFI b
              + W_AFO w * AFO b + TIB b
              + W_HDI w * HDI a + W_FDI w * FDI a + MEP a)"
proof -
  have h: "0 < matchedBigramFreq (buildKeyPos exLayout) (Bigrams exLang)"
    by (simp add: matchedBigramFreq_def exLayout_matched)
  show ?thesis using h TIB_is_normalised_override_sum[OF h, of exConfig] by blast
qed


section \<open>Strict mode of the scissors bigrams\<close>

lemma special_col:
  assumes "col \<le> 3 \<or> (6 \<le> col \<and> col \<le> 9)"
  shows "fingerIsSpecial (getFingerForKey row col) \<longleftrightarrow> col \<in> {1, 2, 7, 8}"
proof -
  from assms have "col \<in> {0, 1, 2, 3, 6, 7, 8, 9}" by auto
  then show ?thesis
    by (auto simp: fingerIsSpecial_def getFingerForKey_eval)
qed

lemma isSameHand_cols:
  "isSameHand col1 col2 \<Longrightarrow>
     (col1 \<le> 3 \<or> (6 \<le> col1 \<and> col1 \<le> 9)) \<and> (col2 \<le> 3 \<or> (6 \<le> col2 \<and> col2 \<le> 9))"
  by (auto simp: isSameHand_def)

lemma isHSBValid_col:
  assumes "isHSBPattern row1 col1 row2 col2"
  shows "isHSBValid row1 col1 row2 col2 \<longleftrightarrow> (if row2 > row1 then col2 else col1) \<in> {1, 2, 7, 8}"
proof -
  from assms have c: "(col1 \<le> 3 \<or> (6 \<le> col1 \<and> col1 \<le> 9)) \<and> (col2 \<le> 3 \<or> (6 \<le> col2 \<and> col2 \<le> 9))"
    using isSameHand_cols[of col1 col2] by (simp add: isHSBPattern_def)
  from assms have r: "row1 \<noteq> row2"
    by (auto simp: isHSBPattern_def rowDiff_def abs_int_def)
  show ?thesis
  proof (cases "row2 > row1")
    case True
    then show ?thesis using c special_col[of col2 row2] by (simp add: isHSBValid_def)
  next
    case False
    then show ?thesis using c r special_col[of col1 row1] by (simp add: isHSBValid_def)
  qed
qed

lemma isFSBValid_col:
  assumes "isFSBPattern row1 col1 row2 col2"
  shows "isFSBValid row1 col1 row2 col2 \<longleftrightarrow> (if row1 = 2 then col1 else col2) \<in> {1, 2, 7, 8}"
proof -
  from assms have c: "(col1 \<le> 3 \<or> (6 \<le> col1 \<and> col1 \<le> 9)) \<and> (col2 \<le> 3 \<or> (6 \<le> col2 \<and> col2 \<le> 9))"
    using isSameHand_cols[of col1 col2] by (simp add: isFSBPattern_def)
  from assms have r: "(row1 = 0 \<and> row2 = 2) \<or> (row1 = 2 \<and> row2 = 0)"
    by (simp add: isFSBPattern_def)
  show ?thesis
  proof (cases "row1 = 2")
    case True
    then show ?thesis using c r special_col[of col1 row1] by (simp add: isFSBValid_def)
  next
    case False
    then show ?thesis using c r special_col[of col2 row2] by (simp add: isFSBValid_def)
  qed
qed

text \<open>
  C2 (as amended). In strict mode a bigram with the HSB geometry is counted in HSB exactly
  when the character in the lower of its two rows lies in column 1, 2, 7 or 8, that is on
  finger 2, 3, 6 or 7 of the code's comment (the ring or the middle finger of either hand),
  and is counted in HSB2 otherwise; a bigram with the FSB geometry is counted in FSB exactly
  when its bottom-row character lies in one of these columns, and in FSB2 otherwise.
\<close>

theorem strict_scissors_bucket_by_lower_finger:
  assumes "HSBStrictMode (Weights config) = 1" and "FSBStrictMode (Weights config) = 1"
  shows "(isHSBPattern row1 col1 row2 col2 \<longrightarrow>
            countHSB config row1 col1 row2 col2 freq s =
              (if (if row2 > row1 then col2 else col1) \<in> {1, 2, 7, 8}
               then s\<lparr>hsb := hsb s + freq\<rparr> else s\<lparr>hsb2 := hsb2 s + freq\<rparr>))
       \<and> (isFSBPattern row1' col1' row2' col2' \<longrightarrow>
            countFSB config row1' col1' row2' col2' freq' s' =
              (if (if row1' = 2 then col1' else col2') \<in> {1, 2, 7, 8}
               then s'\<lparr>fsb := fsb s' + freq'\<rparr> else s'\<lparr>fsb2 := fsb2 s' + freq'\<rparr>))"
  using assms isHSBValid_col[of row1 col1 row2 col2] isFSBValid_col[of row1' col1' row2' col2']
  by (simp add: countHSB_def countFSB_def)

lemma isHSBPattern_ex: "isHSBPattern 1 3 0 2"
  by (simp add: isHSBPattern_def isSameHand_def getFingerForKey_eval rowDiff_def abs_int_def)

lemma isHSBPattern_ex': "isHSBPattern (Suc 0) 3 0 2"
  using isHSBPattern_ex by simp

lemma isFSBPattern_ex: "isFSBPattern 2 1 0 2"
  by (simp add: isFSBPattern_def isSameHand_def getFingerForKey_eval rowDiff_def abs_int_def)

theorem strict_scissors_bucket_by_lower_finger_witness:
  "HSBStrictMode (Weights exConfig) = 1 \<and> FSBStrictMode (Weights exConfig) = 1
   \<and> isHSBPattern 1 3 0 2
   \<and> countHSB exConfig 1 3 0 2 2 zeroSums = zeroSums\<lparr>hsb2 := hsb2 zeroSums + 2\<rparr>
   \<and> isFSBPattern 2 1 0 2
   \<and> countFSB exConfig 2 1 0 2 2 zeroSums = zeroSums\<lparr>fsb := fsb zeroSums + 2\<rparr>"
proof -
  have h1: "HSBStrictMode (Weights exConfig) = 1" by (simp add: exConfig_def exWeights_def)
  have h2: "FSBStrictMode (Weights exConfig) = 1" by (simp add: exConfig_def exWeights_def)
  show ?thesis
    using h1 h2 isHSBPattern_ex isFSBPattern_ex
      strict_scissors_bucket_by_lower_finger[OF h1 h2, of 1 3 0 2 2 zeroSums 2 1 0 2 2 zeroSums]
    by simp
qed

lemma buildKeyPos_exLayoutHSB:
  "buildKeyPos exLayoutHSB = [[98] \<mapsto> (0, 2), [97] \<mapsto> (1, 3)]"
  by (simp add: buildKeyPos_def positions_eq exLayoutHSB_def mkKeys_def)

lemma exLayoutHSB_sums:
  "hsb (bigramSums exConfig (buildKeyPos exLayoutHSB) (Bigrams exLang) 0) = 0"
  "hsb2 (bigramSums exConfig (buildKeyPos exLayoutHSB) (Bigrams exLang) 0) = 2"
  "totalBigramFreq (bigramSums exConfig (buildKeyPos exLayoutHSB) (Bigrams exLang) 0) = 2"
  by (simp_all add: bigramSums_def bigramStep_def buildKeyPos_exLayoutHSB exLang_def Let_def
      classifyBigram_def countSameHalf_def getHalf_def countTIB_eq countHSB_def isHSBPattern_ex'
      isHSBValid_def fingerIsSpecial_def getFingerForKey_eval exConfig_def exWeights_def
      zeroSums_def)

text \<open>
  C2 as stated fails: the letter a lies in the home row under the left index finger
  (column 3), the letter b in the top row under the left middle finger (column 2). The
  bigram ab has the HSB geometry and its lower character sits on an index finger, but in
  strict mode the whole bigram mass is in HSB2 and none in HSB.
\<close>

theorem index_finger_scissor_counterexample:
  "HSBStrictMode (Weights exConfig) = 1
   \<and> buildKeyPos exLayoutHSB [97] = Some (1, 3) \<and> buildKeyPos exLayoutHSB [98] = Some (0, 2)
   \<and> isHSBPattern 1 3 0 2
   \<and> specStretchFinger (getFingerForKey 1 3)
   \<and> HSB (BigramAnalysis (AnalyzeLayout exLayoutHSB exConfig exLang)) = 0
   \<and> HSB2 (BigramAnalysis (AnalyzeLayout exLayoutHSB exConfig exLang)) = 100"
proof -
  have 1: "HSBStrictMode (Weights exConfig) = 1" by (simp add: exConfig_def exWeights_def)
  have 2: "buildKeyPos exLayoutHSB [97] = Some (1, 3) \<and> buildKeyPos exLayoutHSB [98] = Some (0, 2)"
    by (simp add: buildKeyPos_exLayoutHSB)
  have 3: "specStretchFinger (getFingerForKey 1 3)"
    by (simp add: specStretchFinger_def isIndexFinger_def getFingerForKey_eval)
  have 4: "HSB (BigramAnalysis (AnalyzeLayout exLayoutHSB exConfig exLang)) = 0"
    by (simp add: AnalyzeLayout_bigrams calculateBigrams_fresh Let_def exLayoutHSB_sums)
  have 5: "HSB2 (BigramAnalysis (AnalyzeLayout exLayoutHSB exConfig exLang)) = 100"
    by (simp add: AnalyzeLayout_bigrams calculateBigrams_fresh Let_def exLayoutHSB_sums)
  show ?thesis using 1 2 3 4 5 isHSBPattern_ex by simp
qed


section \<open>Neighbour generation\<close>

lemma positions_distinct: "distinct positions"
  by (simp add: positions_eq)

lemma list_ex_positions:
  "list_ex (\<lambda>(row, col). Q row col) positions \<longleftrightarrow> (\<exists>row col. row < 3 \<and> col < 10 \<and> Q row col)"
  by (auto simp: list_ex_iff positions_set)

lemma swapPositions_set:
  "set (swapPositions lib layout config baseLayout uppercasePositions)
     = seededEligible lib config baseLayout uppercasePositions layout"
  by (auto simp: swapPositions_def seededEligible_def seededUnlocked_def nonEmptyKey_def
      list_ex_positions positions_set Let_def)

lemma swapPositions_length:
  "length (swapPositions lib layout config baseLayout uppercasePositions)
     = card (seededEligible lib config baseLayout uppercasePositions layout)"
proof -
  have "distinct (swapPositions lib layout config baseLayout uppercasePositions)"
    using positions_distinct by (simp add: swapPositions_def Let_def)
  then show ?thesis using swapPositions_set[of lib layout config baseLayout uppercasePositions]
    by (metis distinct_card)
qed

lemma swappablePositions_set:
  "set (swappablePositions lib layout config) = plainUnlockedSet lib config layout"
  by (auto simp: swappablePositions_def plainUnlockedSet_def plainUnlocked_def
      hasUppercaseLetters_def list_ex_positions positions_set Let_def)

lemma swappablePositions_length:
  "length (swappablePositions lib layout config) = card (plainUnlockedSet lib config layout)"
proof -
  have "distinct (swappablePositions lib layout config)"
    using positions_distinct by (simp add: swappablePositions_def Let_def)
  then show ?thesis using swappablePositions_set[of lib layout config]
    by (metis distinct_card)
qed

lemma Intn_less: "0 < n \<Longrightarrow> fst (Intn n g) < n"
  by (simp add: Intn_def)

lemma redraw_less:
  assumes "redraw n idx1 idx2 g = Some y"
  shows "0 < n \<longrightarrow> idx2 < n \<longrightarrow> fst y < n"
proof (rule redraw.raw_induct[where P = "\<lambda>n idx1 idx2 g y. 0 < n \<longrightarrow> idx2 < n \<longrightarrow> fst y < n",
      OF _ assms])
  fix f n idx1 idx2 g y
  assume ih: "\<And>n idx1 idx2 g y. f n idx1 idx2 g = Some y \<Longrightarrow> 0 < n \<longrightarrow> idx2 < n \<longrightarrow> fst y < n"
    and eq: "(if idx2 = idx1 then f n idx1 (fst (Intn n g)) (snd (Intn n g)) else Some (idx2, g)) = Some y"
  show "0 < n \<longrightarrow> idx2 < n \<longrightarrow> fst y < n"
  proof (cases "idx2 = idx1")
    case True
    with eq have "f n idx1 (fst (Intn n g)) (snd (Intn n g)) = Some y" by simp
    from ih[OF this] show ?thesis by (simp add: Intn_less)
  next
    case False
    with eq show ?thesis by auto
  qed
qed

lemma redrawMany_less:
  assumes "redrawMany n idx1 idx2 g = Some y"
  shows "0 < n \<longrightarrow> idx2 < n \<longrightarrow> fst y < n"
proof (rule redrawMany.raw_induct[where P = "\<lambda>n idx1 idx2 g y. 0 < n \<longrightarrow> idx2 < n \<longrightarrow> fst y < n",
      OF _ assms])
  fix f n idx1 idx2 g y
  assume ih: "\<And>n idx1 idx2 g y. f n idx1 idx2 g = Some y \<Longrightarrow> 0 < n \<longrightarrow> idx2 < n \<longrightarrow> fst y < n"
    and eq: "(if idx2 = idx1 \<and> n > 1 then f n idx1 (fst (Intn n g)) (snd (Intn n g))
              else Some (idx2, g)) = Some y"
  show "0 < n \<longrightarrow> idx2 < n \<longrightarrow> fst y < n"
  proof (cases "idx2 = idx1 \<and> n > 1")
    case True
    with eq have "f n idx1 (fst (Intn n g)) (snd (Intn n g)) = Some y" by simp
    from ih[OF this] show ?thesis by (simp add: Intn_less)
  next
    case False
    with eq have "y = (idx2, g)" by (auto split: if_splits)
    then show ?thesis by simp
  qed
qed

lemma redraw_done: "idx2 \<noteq> idx1 \<Longrightarrow> redraw n idx1 idx2 g = Some (idx2, g)"
  by (subst redraw.simps) simp

lemma redrawMany_done: "idx2 \<noteq> idx1 \<Longrightarrow> redrawMany n idx1 idx2 g = Some (idx2, g)"
  by (subst redrawMany.simps) simp

lemma seeded_neighbor_cases:
  assumes "generateNeighborFromBaseLayoutWithUppercaseInfo lib layout config baseLayout up g
             = Some (layout', g')"
  shows "layout' = layout
       \<or> (\<exists>pos1 pos2. pos1 \<in> seededEligible lib config baseLayout up layout
             \<and> pos2 \<in> seededEligible lib config baseLayout up layout
             \<and> layout' = swapKeys layout pos1 pos2)"
proof -
  let ?swaps = "swapPositions lib layout config baseLayout up"
  let ?n = "length ?swaps"
  show ?thesis
  proof (cases "?n < 2")
    case True
    then show ?thesis using assms
      by (simp add: generateNeighborFromBaseLayoutWithUppercaseInfo_def Let_def)
  next
    case False
    let ?idx1 = "fst (Intn ?n g)"
    let ?g1 = "snd (Intn ?n g)"
    let ?idx2 = "fst (Intn ?n ?g1)"
    let ?g2 = "snd (Intn ?n ?g1)"
    from False assms obtain i where
      r: "redrawMany ?n ?idx1 ?idx2 ?g2 = Some (i, g')"
      and l: "layout' = swapKeys layout (?swaps ! ?idx1) (?swaps ! i)"
      by (auto simp: generateNeighborFromBaseLayoutWithUppercaseInfo_def Let_def
          split: prod.splits option.splits)
    from False have n: "0 < ?n" by (cases ?swaps) auto
    have i1: "?idx1 < ?n" using n by (rule Intn_less)
    have "?idx2 < ?n" using n by (rule Intn_less)
    with redrawMany_less[OF r] n have i2: "i < ?n" by simp
    have "?swaps ! ?idx1 \<in> set ?swaps" "?swaps ! i \<in> set ?swaps"
      using i1 i2 by simp_all
    then show ?thesis using l unfolding swapPositions_set by blast
  qed
qed

lemma plain_neighbor_cases:
  assumes "generateNeighbor lib layout config g = Some (layout', g')"
  shows "layout' = layout
       \<or> (\<exists>pos1 pos2. pos1 \<in> plainUnlockedSet lib config layout
             \<and> pos2 \<in> plainUnlockedSet lib config layout
             \<and> layout' = swapKeys layout pos1 pos2)"
proof -
  let ?swaps = "swappablePositions lib layout config"
  let ?n = "length ?swaps"
  show ?thesis
  proof (cases "?n < 2")
    case True
    then show ?thesis using assms
      by (simp add: generateNeighbor_def Let_def)
  next
    case False
    let ?idx1 = "fst (Intn ?n g)"
    let ?g1 = "snd (Intn ?n g)"
    let ?idx2 = "fst (Intn ?n ?g1)"
    let ?g2 = "snd (Intn ?n ?g1)"
    from False assms obtain i where
      r: "redraw ?n ?idx1 ?idx2 ?g2 = Some (i, g')"
      and l: "layout' = swapKeys layout (?swaps ! ?idx1) (?swaps ! i)"
      by (auto simp: generateNeighbor_def Let_def split: prod.splits option.splits)
    from False have n: "0 < ?n" by (cases ?swaps) auto
    have i1: "?idx1 < ?n" using n by (rule Intn_less)
    have "?idx2 < ?n" using n by (rule Intn_less)
    with redraw_less[OF r] n have i2: "i < ?n" by simp
    have "?swaps ! ?idx1 \<in> set ?swaps" "?swaps ! i \<in> set ?swaps"
      using i1 i2 by simp_all
    then show ?thesis using l unfolding swappablePositions_set by blast
  qed
qed

text \<open>
  C6 (as amended). The neighbour generator of the seeded search,
  \<open>generateNeighborFromBaseLayoutWithUppercaseInfo\<close>, returns the input layout unchanged
  (and draws no random number) when fewer than two positions are eligible, that is unlocked
  and holding a non-empty key; whatever it returns is the input layout or the input layout
  with the keys of two eligible positions exchanged. \<open>generateNeighbor\<close>, the generator of
  the random-start searches, does the same with the unlocked positions of the grid, empty
  or not: it returns its input unchanged when fewer than two positions are unlocked, and
  it exchanges the keys of unlocked positions only.
\<close>

theorem neighbor_noop_and_swap_candidates:
  "(card (seededEligible lib config baseLayout up layout) < 2 \<longrightarrow>
      generateNeighborFromBaseLayoutWithUppercaseInfo lib layout config baseLayout up g
        = Some (layout, g))
   \<and> (generateNeighborFromBaseLayoutWithUppercaseInfo lib2 layout2 config2 baseLayout2 up2 g2
        = Some (layout2', g2') \<longrightarrow>
      layout2' = layout2
      \<or> (\<exists>pos1 pos2. pos1 \<in> seededEligible lib2 config2 baseLayout2 up2 layout2
            \<and> pos2 \<in> seededEligible lib2 config2 baseLayout2 up2 layout2
            \<and> layout2' = swapKeys layout2 pos1 pos2))
   \<and> (card (plainUnlockedSet lib3 config3 layout3) < 2 \<longrightarrow>
      generateNeighbor lib3 layout3 config3 g3 = Some (layout3, g3))
   \<and> (generateNeighbor lib4 layout4 config4 g4 = Some (layout4', g4') \<longrightarrow>
      layout4' = layout4
      \<or> (\<exists>pos1 pos2. pos1 \<in> plainUnlockedSet lib4 config4 layout4
            \<and> pos2 \<in> plainUnlockedSet lib4 config4 layout4
            \<and> layout4' = swapKeys layout4 pos1 pos2))"
  using seeded_neighbor_cases[of lib2 layout2 config2 baseLayout2 up2 g2 layout2' g2']
    plain_neighbor_cases[of lib4 layout4 config4 g4 layout4' g4']
  by (simp add: generateNeighborFromBaseLayoutWithUppercaseInfo_def generateNeighbor_def
      swapPositions_length swappablePositions_length Let_def)


lemma Intn_siterate: "Intn n (siterate Suc k) = (k mod n, siterate Suc (Suc k))"
  by (simp add: Intn_def)

lemma isUppercase_ascii:
  "isUppercase asciiLib [] = False"
  "isUppercase asciiLib (r # rs) = (65 \<le> r \<and> r \<le> 90)"
  by (simp_all add: isUppercase_def asciiLib_def)

lemma swapPositions_exLayoutOne:
  "swapPositions asciiLib exLayoutOne exConfig exLayoutOne (\<lambda>_ _. False) = [(0, 0)]"
  by (simp add: swapPositions_def list_ex_positions positions_eq exLayoutOne_def mkKeys_def
      exConfig_def isUppercase_ascii)

lemma swapPositions_exLayout:
  "swapPositions asciiLib exLayout exConfig exLayout (\<lambda>_ _. False) = [(0, 0), (0, 1)]"
  by (simp add: swapPositions_def list_ex_positions positions_eq exLayout_def mkKeys_def
      exConfig_def isUppercase_ascii)

lemma hasUppercaseLetters_exLayoutOne: "\<not> hasUppercaseLetters asciiLib exLayoutOne"
  by (simp add: hasUppercaseLetters_def positions_eq exLayoutOne_def mkKeys_def isUppercase_ascii)

lemma swappablePositions_fixed:
  "swappablePositions asciiLib exLayoutOne exConfigFixed = []"
  by (simp add: swappablePositions_def hasUppercaseLetters_exLayoutOne exConfigFixed_def
      exConfig_def Let_def)

lemma swappablePositions_exLayoutOne:
  "swappablePositions asciiLib exLayoutOne exConfig = positions"
  by (simp add: swappablePositions_def hasUppercaseLetters_exLayoutOne exConfig_def
      positions_eq exLayoutOne_def mkKeys_def isUppercase_ascii Let_def)

lemma seeded_neighbor_exLayout:
  "generateNeighborFromBaseLayoutWithUppercaseInfo asciiLib exLayout exConfig exLayout
       (\<lambda>_ _. False) (siterate Suc 0)
     = Some (swapKeys exLayout (0, 0) (0, 1), siterate Suc 2)"
  by (simp add: generateNeighborFromBaseLayoutWithUppercaseInfo_def swapPositions_exLayout
      Intn_siterate redrawMany_done numeral_2_eq_2)

lemma plain_neighbor_exLayoutOne:
  "generateNeighbor asciiLib exLayoutOne exConfig (siterate Suc 0)
     = Some (swapKeys exLayoutOne (0, 0) (0, 1), siterate Suc 2)"
  by (simp add: generateNeighbor_def swappablePositions_exLayoutOne Intn_siterate redraw_done
      numeral_2_eq_2 positions_eq)

theorem neighbor_noop_and_swap_candidates_witness:
  "card (seededEligible asciiLib exConfig exLayoutOne (\<lambda>_ _. False) exLayoutOne) < 2
   \<and> generateNeighborFromBaseLayoutWithUppercaseInfo asciiLib exLayoutOne exConfig exLayoutOne
        (\<lambda>_ _. False) (siterate Suc 0) = Some (exLayoutOne, siterate Suc 0)
   \<and> generateNeighborFromBaseLayoutWithUppercaseInfo asciiLib exLayout exConfig exLayout
        (\<lambda>_ _. False) (siterate Suc 0) = Some (swapKeys exLayout (0, 0) (0, 1), siterate Suc 2)
   \<and> (swapKeys exLayout (0, 0) (0, 1) = exLayout
      \<or> (\<exists>pos1 pos2. pos1 \<in> seededEligible asciiLib exConfig exLayout (\<lambda>_ _. False) exLayout
            \<and> pos2 \<in> seededEligible asciiLib exConfig exLayout (\<lambda>_ _. False) exLayout
            \<and> swapKeys exLayout (0, 0) (0, 1) = swapKeys exLayout pos1 pos2))
   \<and> card (plainUnlockedSet asciiLib exConfigFixed exLayoutOne) < 2
   \<and> generateNeighbor asciiLib exLayoutOne exConfigFixed (siterate Suc 0)
        = Some (exLayoutOne, siterate Suc 0)
   \<and> generateNeighbor asciiLib exLayoutOne exConfig (siterate Suc 0)
        = Some (swapKeys exLayoutOne (0, 0) (0, 1), siterate Suc 2)
   \<and> (swapKeys exLayoutOne (0, 0) (0, 1) = exLayoutOne
      \<or> (\<exists>pos1 pos2. pos1 \<in> plainUnlockedSet asciiLib exConfig exLayoutOne
            \<and> pos2 \<in> plainUnlockedSet asciiLib exConfig exLayoutOne
            \<and> swapKeys exLayoutOne (0, 0) (0, 1) = swapKeys exLayoutOne pos1 pos2))"
proof -
  have h1: "card (seededEligible asciiLib exConfig exLayoutOne (\<lambda>_ _. False) exLayoutOne) < 2"
    by (simp add: swapPositions_length[symmetric] swapPositions_exLayoutOne)
  have h2: "generateNeighborFromBaseLayoutWithUppercaseInfo asciiLib exLayout exConfig exLayout
        (\<lambda>_ _. False) (siterate Suc 0) = Some (swapKeys exLayout (0, 0) (0, 1), siterate Suc 2)"
    by (rule seeded_neighbor_exLayout)
  have h3: "card (plainUnlockedSet asciiLib exConfigFixed exLayoutOne) < 2"
    by (simp add: swappablePositions_length[symmetric] swappablePositions_fixed)
  have h4: "generateNeighbor asciiLib exLayoutOne exConfig (siterate Suc 0)
        = Some (swapKeys exLayoutOne (0, 0) (0, 1), siterate Suc 2)"
    by (rule plain_neighbor_exLayoutOne)
  show ?thesis
    using h1 h2 h3 h4
      neighbor_noop_and_swap_candidates[of asciiLib exConfig exLayoutOne "\<lambda>_ _. False" exLayoutOne
        "siterate Suc 0" asciiLib exLayout exConfig exLayout "\<lambda>_ _. False" "siterate Suc 0"
        "swapKeys exLayout (0, 0) (0, 1)" "siterate Suc 2" asciiLib exConfigFixed exLayoutOne
        "siterate Suc 0" asciiLib exLayoutOne exConfig "siterate Suc 0"
        "swapKeys exLayoutOne (0, 0) (0, 1)" "siterate Suc 2"]
    by blast
qed

lemma plainEligible_exLayoutOne: "plainEligible asciiLib exConfig exLayoutOne \<subseteq> {(0, 0)}"
  by (auto simp: plainEligible_def nonEmptyKey_def exLayoutOne_def mkKeys_def split: if_splits)

text \<open>
  C6 as stated fails for \<open>generateNeighbor\<close>: on a layout with the single letter a and a
  mask of dots only, one position is eligible (unlocked and non-empty), yet the generator
  exchanges the letter with the empty key next to it.
\<close>

theorem generateNeighbor_moves_key_to_empty_counterexample:
  "card (plainEligible asciiLib exConfig exLayoutOne) < 2
   \<and> (0, 1) \<notin> plainEligible asciiLib exConfig exLayoutOne
   \<and> generateNeighbor asciiLib exLayoutOne exConfig (siterate Suc 0)
        = Some (swapKeys exLayoutOne (0, 0) (0, 1), siterate Suc 2)
   \<and> Keys exLayoutOne 0 0 = [97] \<and> Keys exLayoutOne 0 1 = []
   \<and> Keys (swapKeys exLayoutOne (0, 0) (0, 1)) 0 0 = []
   \<and> Keys (swapKeys exLayoutOne (0, 0) (0, 1)) 0 1 = [97]"
proof -
  have "card (plainEligible asciiLib exConfig exLayoutOne) \<le> card {(0::nat, 0::nat)}"
    by (rule card_mono) (simp_all add: plainEligible_exLayoutOne)
  then have 1: "card (plainEligible asciiLib exConfig exLayoutOne) < 2" by simp
  have 2: "(0, 1) \<notin> plainEligible asciiLib exConfig exLayoutOne"
    using plainEligible_exLayoutOne by auto
  have 3: "Keys exLayoutOne 0 0 = [97] \<and> Keys exLayoutOne 0 1 = []
   \<and> Keys (swapKeys exLayoutOne (0, 0) (0, 1)) 0 0 = []
   \<and> Keys (swapKeys exLayoutOne (0, 0) (0, 1)) 0 1 = [97]"
    by (simp add: swapKeys_def setCell_def exLayoutOne_def mkKeys_def)
  show ?thesis using 1 2 3 plain_neighbor_exLayoutOne by simp
qed


section \<open>The seeded search without iterations\<close>

lemma setCell_apply:
  "setCell m pos v row col = (if row = fst pos \<and> col = snd pos then v else m row col)"
  by (simp add: setCell_def)

lemma createLowercase_fold:
  fixes originalLayout :: Layout and lib :: GoLib
  defines "F \<equiv> (\<lambda>(row, col) (lowercaseLayout, uppercasePositions).
             let key = Keys originalLayout row col
             in if key \<noteq> [] \<and> key \<noteq> [32]
                then (lowercaseLayout\<lparr>Keys := setCell (Keys lowercaseLayout) (row, col) (ToLower lib key)\<rparr>,
                      setCell uppercasePositions (row, col) (isUppercase lib key))
                else (lowercaseLayout, setCell uppercasePositions (row, col) False))"
  shows "fold F ps (l0, up0)
   = (l0\<lparr>Keys := (\<lambda>row col. if (row, col) \<in> set ps \<and> nonEmptyKey (Keys originalLayout row col)
                               then ToLower lib (Keys originalLayout row col) else Keys l0 row col)\<rparr>,
      (\<lambda>row col. if (row, col) \<in> set ps
                  then nonEmptyKey (Keys originalLayout row col) \<and> isUppercase lib (Keys originalLayout row col)
                  else up0 row col))"
proof (induction ps arbitrary: l0 up0)
  case Nil
  then show ?case by simp
next
  case (Cons p ps)
  obtain r c where p: "p = (r, c)" by (cases p)
  let ?key = "Keys originalLayout r c"
  let ?l1 = "if nonEmptyKey ?key then l0\<lparr>Keys := setCell (Keys l0) (r, c) (ToLower lib ?key)\<rparr> else l0"
  let ?up1 = "setCell up0 (r, c) (nonEmptyKey ?key \<and> isUppercase lib ?key)"
  have step: "F p (l0, up0) = (?l1, ?up1)"
    by (simp add: F_def p Let_def nonEmptyKey_def)
  have "fold F (p # ps) (l0, up0) = fold F ps (?l1, ?up1)"
    by (simp add: step)
  also have "\<dots> = (?l1\<lparr>Keys := (\<lambda>row col. if (row, col) \<in> set ps \<and> nonEmptyKey (Keys originalLayout row col)
                               then ToLower lib (Keys originalLayout row col) else Keys ?l1 row col)\<rparr>,
      (\<lambda>row col. if (row, col) \<in> set ps
                  then nonEmptyKey (Keys originalLayout row col) \<and> isUppercase lib (Keys originalLayout row col)
                  else ?up1 row col))"
    by (rule Cons.IH)
  also have "\<dots> = (l0\<lparr>Keys := (\<lambda>row col. if (row, col) \<in> set (p # ps) \<and> nonEmptyKey (Keys originalLayout row col)
                               then ToLower lib (Keys originalLayout row col) else Keys l0 row col)\<rparr>,
      (\<lambda>row col. if (row, col) \<in> set (p # ps)
                  then nonEmptyKey (Keys originalLayout row col) \<and> isUppercase lib (Keys originalLayout row col)
                  else up0 row col))"
    by (auto simp: p fun_eq_iff setCell_apply)
  finally show ?case .
qed

lemma createLowercaseLayout_eq:
  "createLowercaseLayout lib l =
     (l\<lparr>Keys := (\<lambda>row col. if row < 3 \<and> col < 10 \<and> nonEmptyKey (Keys l row col)
                             then ToLower lib (Keys l row col) else Keys l row col)\<rparr>,
      (\<lambda>row col. row < 3 \<and> col < 10 \<and> nonEmptyKey (Keys l row col) \<and> isUppercase lib (Keys l row col)))"
  unfolding createLowercaseLayout_def createLowercase_fold
  by (auto simp: positions_set fun_eq_iff)

lemma fold_id: "(\<And>x. x \<in> set xs \<Longrightarrow> f x s = s) \<Longrightarrow> fold f xs s = s"
  by (induction xs) simp_all

lemma sortInner_id:
  assumes "\<And>j. i < j \<Longrightarrow> j < length rs \<Longrightarrow> \<not> Score (rs ! j) < Score (rs ! i)"
  shows "sortInner i rs = rs"
  unfolding sortInner_def
  by (rule fold_id) (use assms in \<open>auto simp: innerStep_def\<close>)

lemma sortResultsByScore_id:
  assumes "\<And>i j. i < j \<Longrightarrow> j < length rs \<Longrightarrow> \<not> Score (rs ! j) < Score (rs ! i)"
  shows "sortResultsByScore rs = rs"
  unfolding sortResultsByScore_def
  by (rule fold_id) (use assms in \<open>auto intro: sortInner_id\<close>)

lemma sort_replicate: "sortResultsByScore (replicate n r) = replicate n r"
  by (rule sortResultsByScore_id) simp

lemma truncateBest_replicate:
  "truncateBest numBest (replicate n r) =
     replicate (if numBest > 0 then min n (nat numBest) else n) r"
  by (auto simp: truncateBest_def min_def)

lemma runRestart_no_iterations:
  assumes "Iterations params \<le> 0"
  shows "runRestart lib config langData params lower up restart bestResults g =
     Some (resultOf config langData
             (if restart > 0 \<and> length bestResults > 0 then Layout (bestResults ! 0) else lower), g)"
  using assms by (simp add: runRestart_def Let_def resultOf_def)

lemma restartLoop_no_iterations:
  assumes "Iterations params \<le> 0"
  shows "restartLoop lib config langData params numBest lower up k restart
           (replicate n (resultOf config langData lower)) g =
     Some (replicate (if numBest > 0 then (if n + k \<le> nat numBest then n + k
                                            else if nat numBest \<le> n then (if k = 0 then n else nat numBest)
                                            else nat numBest)
                      else n + k) (resultOf config langData lower), g)"
proof (induction k arbitrary: restart n)
  case 0
  then show ?case by simp
next
  case (Suc k)
  have start: "(if restart > 0 \<and> length (replicate n (resultOf config langData lower)) > 0
                then Layout (replicate n (resultOf config langData lower) ! 0) else lower) = lower"
    by (simp add: resultOf_def)
  have app: "replicate n (resultOf config langData lower) @ [resultOf config langData lower]
      = replicate (Suc n) (resultOf config langData lower)"
    by (simp add: replicate_append_same)
  show ?case
    unfolding restartLoop.simps runRestart_no_iterations[OF assms] start option.case prod.case
      app sort_replicate truncateBest_replicate Suc.IH
    by (auto simp: min_def)
qed

lemma search_no_iterations:
  assumes "Iterations params \<le> 0"
  shows "SearchOptimalLayoutFromSpecificLayout lib config langData params numBest startLayout =
     Some (replicate (if numBest > 0 then min (nat (Restarts params)) (nat numBest)
                      else nat (Restarts params))
             (resultOf config langData (fst (createLowercaseLayout lib startLayout))))"
proof -
  obtain lower up where c: "createLowercaseLayout lib startLayout = (lower, up)"
    by (cases "createLowercaseLayout lib startLayout")
  have "restartLoop lib config langData params numBest lower up (nat (Restarts params)) 0 []
          (Seed lib (RandomSeed params))
        = restartLoop lib config langData params numBest lower up (nat (Restarts params)) 0
          (replicate 0 (resultOf config langData lower)) (Seed lib (RandomSeed params))"
    by simp
  also note restartLoop_no_iterations[OF assms]
  finally show ?thesis
    by (auto simp: SearchOptimalLayoutFromSpecificLayout_def c truncateBest_replicate min_def)
qed


text \<open>
  C4 (as amended). With \<open>iterations = 0\<close> the seeded search returns the same result for
  every restart it keeps, \<open>min(restarts, numBest)\<close> of them when \<open>numBest > 0\<close> and
  \<open>restarts\<close> otherwise: its layout is the seed with every non-empty key of the grid
  lower-cased (the seed itself when lower-casing changes none of its keys), and its
  analysis and score are those of \<open>AnalyzeLayout\<close> on that lower-cased layout.
\<close>

theorem search_without_iterations:
  "SearchOptimalLayoutFromSpecificLayout lib config langData (params\<lparr>Iterations := 0\<rparr>) numBest
       startLayout =
     (let lower = startLayout\<lparr>Keys :=
                    (\<lambda>row col. if row < 3 \<and> col < 10 \<and> nonEmptyKey (Keys startLayout row col)
                                then ToLower lib (Keys startLayout row col)
                                else Keys startLayout row col)\<rparr>
      in Some (replicate (if numBest > 0 then min (nat (Restarts params)) (nat numBest)
                          else nat (Restarts params))
                 \<lparr>Layout = lower, Analysis = AnalyzeLayout lower config langData,
                  Score = WeightedScore (AnalyzeLayout lower config langData)\<rparr>))"
  using search_no_iterations[of "params\<lparr>Iterations := 0\<rparr>" lib config langData numBest startLayout]
  by (simp add: createLowercaseLayout_eq resultOf_def Let_def)

lemma lower_exSeedUpper: "fst (createLowercaseLayout asciiLib exSeedUpper) = exLayout"
  by (auto simp: createLowercaseLayout_eq exSeedUpper_def exLayout_def mkKeys_def fun_eq_iff
      asciiLib_def nonEmptyKey_def)

lemma calculateMEP_exConfig: "calculateMEP a exConfig = 0"
  by (simp add: calculateMEP_def exConfig_def upt_8 upt_3)

lemma AnalyzeLayout_MEP: "\<exists>a. MEP (AnalyzeLayout l c d) = calculateMEP a c"
  by (auto simp: AnalyzeLayout_def Let_def)

lemma score_exConfig:
  "WeightedScore (AnalyzeLayout l exConfig d) =
     TotalEffort (AnalyzeLayout l exConfig d) + TIB (BigramAnalysis (AnalyzeLayout l exConfig d))"
proof -
  obtain a where "MEP (AnalyzeLayout l exConfig d) = calculateMEP a exConfig"
    using AnalyzeLayout_MEP by blast
  then have m: "MEP (AnalyzeLayout l exConfig d) = 0" by (simp add: calculateMEP_exConfig)
  have w: "Weights exConfig = exWeights" by (simp add: exConfig_def)
  show ?thesis
    by (subst AnalyzeLayout_score) (simp add: Let_def m w exWeights_def)
qed

lemma uniformEffort_exConfig: "uniformEffort exConfig = 1"
  by (simp add: uniformEffort_def positions_eq exConfig_def)

lemma score_exLayout: "WeightedScore (AnalyzeLayout exLayout exConfig exLang) = 400"
proof -
  have 1: "TotalEffort (AnalyzeLayout exLayout exConfig exLang) = 100"
    by (simp add: AnalyzeLayout_effort calculateEffort_total exLayout_totalFreq Let_def
        uniformEffort_exConfig)
  have 2: "TIB (BigramAnalysis (AnalyzeLayout exLayout exConfig exLang)) = 300"
    by (simp add: AnalyzeLayout_bigrams calculateBigrams_fresh Let_def exLayout_bigramSums_tib
        exLayout_bigramSums_total)
  show ?thesis by (simp add: score_exConfig 1 2)
qed

lemma buildKeyPos_exSeedUpper:
  "buildKeyPos exSeedUpper = [[65] \<mapsto> (0, 0), [98] \<mapsto> (0, 1)]"
  by (simp add: buildKeyPos_def positions_eq exSeedUpper_def mkKeys_def)

lemma score_exSeedUpper: "WeightedScore (AnalyzeLayout exSeedUpper exConfig exLang) = 100"
proof -
  have t: "effortTotals exConfig (buildKeyPos exSeedUpper) (Characters exLang) = (1, 1)"
    by (simp add: buildKeyPos_exSeedUpper effortTotals_def exLang_def exConfig_def)
  have 1: "TotalEffort (AnalyzeLayout exSeedUpper exConfig exLang) = 100"
    by (simp add: AnalyzeLayout_effort calculateEffort_total t Let_def uniformEffort_exConfig)
  have s: "bigramSums exConfig (buildKeyPos exSeedUpper) (Bigrams exLang) 0 = zeroSums"
    by (simp add: bigramSums_def bigramStep_def buildKeyPos_exSeedUpper exLang_def Let_def
        zeroSums_def)
  have 2: "TIB (BigramAnalysis (AnalyzeLayout exSeedUpper exConfig exLang)) = 0"
    by (simp add: AnalyzeLayout_bigrams calculateBigrams_fresh Let_def s zeroSums_def
        zeroBigramAnalysis_def)
  show ?thesis by (simp add: score_exConfig 1 2)
qed

text \<open>
  C4 as stated fails on a seed with an uppercase letter: for the seed with A and b on the
  first two keys, the single result has the layout with a and b and the score 400 of that
  layout, while the seed itself has the score 100.
\<close>

theorem search_lowercases_seed_counterexample:
  "SearchOptimalLayoutFromSpecificLayout asciiLib exConfig exLang exParams0 1 exSeedUpper
     = Some [\<lparr>Layout = exLayout, Analysis = AnalyzeLayout exLayout exConfig exLang, Score = 400\<rparr>]
   \<and> exLayout \<noteq> exSeedUpper
   \<and> Keys exSeedUpper 0 0 = [65] \<and> Keys exLayout 0 0 = [97]
   \<and> WeightedScore (AnalyzeLayout exSeedUpper exConfig exLang) = 100"
proof -
  have i: "Iterations exParams0 \<le> 0" by (simp add: exParams0_def)
  have 1: "SearchOptimalLayoutFromSpecificLayout asciiLib exConfig exLang exParams0 1 exSeedUpper
     = Some [\<lparr>Layout = exLayout, Analysis = AnalyzeLayout exLayout exConfig exLang, Score = 400\<rparr>]"
  proof -
    have r: "nat (Restarts exParams0) = 1" by (simp add: exParams0_def)
    show ?thesis
      unfolding search_no_iterations[OF i] lower_exSeedUpper r
      by (simp add: resultOf_def score_exLayout)
  qed
  have 2: "Keys exSeedUpper 0 0 = [65] \<and> Keys exLayout 0 0 = [97]"
    by (simp add: exSeedUpper_def exLayout_def mkKeys_def)
  then have 3: "exLayout \<noteq> exSeedUpper" by auto
  show ?thesis using 1 2 3 score_exSeedUpper by simp
qed


section \<open>sortResultsByScore permutes its argument\<close>

lemma swap_fold_props:
  assumes "i < length rs" and "\<And>j. j \<in> set js \<Longrightarrow> j < length rs"
  shows "length (fold (\<lambda>j rs. if P j rs then rs[i := rs ! j, j := rs ! i] else rs) js rs) = length rs
       \<and> mset (fold (\<lambda>j rs. if P j rs then rs[i := rs ! j, j := rs ! i] else rs) js rs) = mset rs"
  using assms
proof (induction js arbitrary: rs)
  case Nil
  then show ?case by simp
next
  case (Cons j js)
  let ?rs1 = "if P j rs then rs[i := rs ! j, j := rs ! i] else rs"
  have j: "j < length rs" using Cons.prems(2) by simp
  have l1: "length ?rs1 = length rs" by simp
  have m1: "mset ?rs1 = mset rs"
    using mset_swap[OF j Cons.prems(1)] by simp
  have "length (fold (\<lambda>j rs. if P j rs then rs[i := rs ! j, j := rs ! i] else rs) js ?rs1) = length ?rs1
       \<and> mset (fold (\<lambda>j rs. if P j rs then rs[i := rs ! j, j := rs ! i] else rs) js ?rs1) = mset ?rs1"
    by (rule Cons.IH) (use Cons.prems l1 in auto)
  then show ?case using l1 m1 by simp
qed

lemma sortInner_props:
  assumes "i < length rs"
  shows "length (sortInner i rs) = length rs" and "mset (sortInner i rs) = mset rs"
proof -
  have "innerStep i = (\<lambda>j rs. if Score (rs ! j) < Score (rs ! i) then rs[i := rs ! j, j := rs ! i] else rs)"
    by (simp add: innerStep_def fun_eq_iff)
  then have "sortInner i rs =
      fold (\<lambda>j rs. if Score (rs ! j) < Score (rs ! i) then rs[i := rs ! j, j := rs ! i] else rs)
        [i + 1..<length rs] rs"
    by (simp add: sortInner_def)
  then show "length (sortInner i rs) = length rs" and "mset (sortInner i rs) = mset rs"
    using swap_fold_props[of i rs "[i + 1..<length rs]" "\<lambda>j rs. Score (rs ! j) < Score (rs ! i)"] assms
    by simp_all
qed

lemma fold_sortInner_props:
  assumes "\<And>i. i \<in> set is \<Longrightarrow> i < length rs"
  shows "length (fold sortInner is rs) = length rs \<and> mset (fold sortInner is rs) = mset rs"
  using assms
proof (induction "is" arbitrary: rs)
  case Nil
  then show ?case by simp
next
  case (Cons i "is")
  have i: "i < length rs" using Cons.prems by simp
  have "length (fold sortInner is (sortInner i rs)) = length (sortInner i rs)
      \<and> mset (fold sortInner is (sortInner i rs)) = mset (sortInner i rs)"
    by (rule Cons.IH) (use Cons.prems sortInner_props(1)[OF i] in auto)
  then show ?case using sortInner_props[OF i] by simp
qed

lemma sortResultsByScore_mset: "mset (sortResultsByScore rs) = mset rs"
  using fold_sortInner_props[of "[0..<length rs]" rs] by (simp add: sortResultsByScore_def)


lemma sortResultsByScore_set: "set (sortResultsByScore rs) = set rs"
  using sortResultsByScore_mset[of rs] by (metis set_mset_mset)

lemma truncateBest_subset: "set (truncateBest numBest rs) \<subseteq> set rs"
  by (auto simp: truncateBest_def dest: in_set_takeD)


section \<open>Locked positions\<close>

lemma swapKeys_other:
  assumes "(row, col) \<noteq> pos1" and "(row, col) \<noteq> pos2"
  shows "Keys (swapKeys l pos1 pos2) row col = Keys l row col"
  using assms by (cases pos1; cases pos2) (auto simp: swapKeys_def Let_def setCell_apply)

lemma isUppercase_nonEmpty:
  assumes "\<not> IsUpper lib 32" and "isUppercase lib key"
  shows "nonEmptyKey key"
  using assms by (auto simp: isUppercase_def nonEmptyKey_def split: list.splits)

lemma eligible_not_locked:
  assumes blank: "\<not> IsUpper lib 32"
    and el: "pos \<in> seededEligible lib config (fst (createLowercaseLayout lib startLayout))
                    (snd (createLowercaseLayout lib startLayout)) layout"
  shows "\<not> lockedPosition lib config startLayout (fst pos) (snd pos)"
proof -
  let ?up = "snd (createLowercaseLayout lib startLayout)"
  have up: "\<And>row col. ?up row col \<longleftrightarrow>
      row < 3 \<and> col < 10 \<and> isUppercase lib (Keys startLayout row col)"
    using isUppercase_nonEmpty[OF blank] by (auto simp: createLowercaseLayout_eq)
  have ex: "(\<exists>row col. row < 3 \<and> col < 10 \<and> ?up row col)
      \<longleftrightarrow> (\<exists>r c. r < 3 \<and> c < 10 \<and> isUppercase lib (Keys startLayout r c))"
    using up by auto
  from el have g: "fst pos < 3" "snd pos < 10"
    and u: "seededUnlocked lib config (fst (createLowercaseLayout lib startLayout)) ?up pos"
    by (simp_all add: seededEligible_def)
  show ?thesis
  proof (cases "\<exists>r c. r < 3 \<and> c < 10 \<and> isUppercase lib (Keys startLayout r c)")
    case True
    with u ex have "\<not> ?up (fst pos) (snd pos)" by (simp add: seededUnlocked_def)
    with up g have "\<not> isUppercase lib (Keys startLayout (fst pos) (snd pos))" by simp
    moreover have "lockedPosition lib config startLayout (fst pos) (snd pos)
        \<longleftrightarrow> isUppercase lib (Keys startLayout (fst pos) (snd pos))"
      unfolding lockedPosition_def using True by (simp only: if_True)
    ultimately show ?thesis by simp
  next
    case False
    with u ex have "FixedPositions config (fst pos) (snd pos) = [46]"
      by (simp add: seededUnlocked_def)
    moreover have "lockedPosition lib config startLayout (fst pos) (snd pos)
        \<longleftrightarrow> FixedPositions config (fst pos) (snd pos) \<noteq> [46]"
      unfolding lockedPosition_def using False by (simp only: if_False)
    ultimately show ?thesis by simp
  qed
qed

lemma neighbor_keepsLocked:
  assumes blank: "\<not> IsUpper lib 32"
    and n: "generateNeighborFromBaseLayoutWithUppercaseInfo lib layout config
              (fst (createLowercaseLayout lib startLayout))
              (snd (createLowercaseLayout lib startLayout)) g = Some (layout', g')"
    and k: "keepsLocked lib config startLayout layout"
  shows "keepsLocked lib config startLayout layout'"
proof -
  from seeded_neighbor_cases[OF n]
  consider "layout' = layout"
    | pos1 pos2 where
      "pos1 \<in> seededEligible lib config (fst (createLowercaseLayout lib startLayout))
                (snd (createLowercaseLayout lib startLayout)) layout"
      "pos2 \<in> seededEligible lib config (fst (createLowercaseLayout lib startLayout))
                (snd (createLowercaseLayout lib startLayout)) layout"
      "layout' = swapKeys layout pos1 pos2"
    by blast
  then show ?thesis
  proof cases
    case 1
    then show ?thesis using k by simp
  next
    case 2
    have n1: "\<not> lockedPosition lib config startLayout (fst pos1) (snd pos1)"
      using eligible_not_locked[OF blank 2(1)] .
    have n2: "\<not> lockedPosition lib config startLayout (fst pos2) (snd pos2)"
      using eligible_not_locked[OF blank 2(2)] .
    show ?thesis
      unfolding keepsLocked_def
    proof (intro allI impI)
      fix row col
      assume a: "row < 3 \<and> col < 10 \<and> lockedPosition lib config startLayout row col"
      then have "(row, col) \<noteq> pos1" "(row, col) \<noteq> pos2" using n1 n2 by auto
      then have "Keys layout' row col = Keys layout row col"
        unfolding 2(3) by (rule swapKeys_other)
      then show "Keys layout' row col = Keys (fst (createLowercaseLayout lib startLayout)) row col"
        using k a by (simp add: keepsLocked_def)
    qed
  qed
qed

lemma annealStep_keepsLocked:
  assumes blank: "\<not> IsUpper lib 32"
    and s: "annealStep lib config langData params (fst (createLowercaseLayout lib startLayout))
              (snd (createLowercaseLayout lib startLayout)) st = Some st'"
    and c: "keepsLocked lib config startLayout (currentLayout st)"
    and b: "keepsLocked lib config startLayout (bestLayoutRestart st)"
  shows "keepsLocked lib config startLayout (currentLayout st')
       \<and> keepsLocked lib config startLayout (bestLayoutRestart st')"
proof -
  from s obtain nl g where
    n: "generateNeighborFromBaseLayoutWithUppercaseInfo lib (currentLayout st) config
              (fst (createLowercaseLayout lib startLayout))
              (snd (createLowercaseLayout lib startLayout)) (rngState st) = Some (nl, g)"
    by (auto simp: annealStep_def split: option.splits)
  have kn: "keepsLocked lib config startLayout nl"
    using neighbor_keepsLocked[OF blank n c] .
  have "currentLayout st' = nl \<or> currentLayout st' = currentLayout st"
    using s n by (auto simp: annealStep_def Let_def split: prod.splits if_splits)
  moreover have "bestLayoutRestart st' = nl \<or> bestLayoutRestart st' = bestLayoutRestart st"
    using s n by (auto simp: annealStep_def Let_def split: prod.splits if_splits)
  ultimately show ?thesis using kn c b by auto
qed

lemma annealLoop_keepsLocked:
  assumes blank: "\<not> IsUpper lib 32"
    and s: "annealLoop lib config langData params (fst (createLowercaseLayout lib startLayout))
              (snd (createLowercaseLayout lib startLayout)) k st = Some st'"
    and c: "keepsLocked lib config startLayout (currentLayout st)"
    and b: "keepsLocked lib config startLayout (bestLayoutRestart st)"
  shows "keepsLocked lib config startLayout (bestLayoutRestart st')"
  using s c b
proof (induction k arbitrary: st)
  case 0
  then show ?case by simp
next
  case (Suc k)
  from Suc.prems(1) obtain st1 where
    s1: "annealStep lib config langData params (fst (createLowercaseLayout lib startLayout))
              (snd (createLowercaseLayout lib startLayout)) st = Some st1"
    and l: "annealLoop lib config langData params (fst (createLowercaseLayout lib startLayout))
              (snd (createLowercaseLayout lib startLayout)) k st1 = Some st'"
    by (auto split: option.splits)
  from annealStep_keepsLocked[OF blank s1 Suc.prems(2) Suc.prems(3)]
  show ?case using Suc.IH[OF l] by simp
qed

lemma runRestart_keepsLocked:
  assumes blank: "\<not> IsUpper lib 32"
    and r: "runRestart lib config langData params (fst (createLowercaseLayout lib startLayout))
              (snd (createLowercaseLayout lib startLayout)) restart bestResults g = Some (res, g')"
    and all: "\<And>x. x \<in> set bestResults \<Longrightarrow> keepsLocked lib config startLayout (Layout x)"
  shows "keepsLocked lib config startLayout (Layout res)"
proof -
  let ?lower = "fst (createLowercaseLayout lib startLayout)"
  let ?start = "if restart > 0 \<and> length bestResults > 0 then Layout (bestResults ! 0) else ?lower"
  have k1: "keepsLocked lib config startLayout ?lower"
    by (simp add: keepsLocked_def)
  have k2: "bestResults \<noteq> [] \<Longrightarrow> keepsLocked lib config startLayout (Layout (bestResults ! 0))"
    using all[of "bestResults ! 0"] by (cases bestResults) auto
  from r obtain st' where
    l: "annealLoop lib config langData params ?lower (snd (createLowercaseLayout lib startLayout))
          (nat (Iterations params))
          \<lparr>currentLayout = ?start, currentAnalysis = AnalyzeLayout ?start config langData,
            currentScore = WeightedScore (AnalyzeLayout ?start config langData),
            bestLayoutRestart = ?start,
            bestScoreRestart = WeightedScore (AnalyzeLayout ?start config langData),
            bestAnalysisRestart = AnalyzeLayout ?start config langData,
            temperature = InitialTemp params, rngState = g\<rparr> = Some st'"
    and res: "Layout res = bestLayoutRestart st'"
    by (auto simp: runRestart_def Let_def split: option.splits if_splits)
  show ?thesis unfolding res
    by (rule annealLoop_keepsLocked[OF blank l]) (simp_all add: k1 k2)
qed

lemma restartLoop_keepsLocked:
  assumes blank: "\<not> IsUpper lib 32"
    and r: "restartLoop lib config langData params numBest (fst (createLowercaseLayout lib startLayout))
              (snd (createLowercaseLayout lib startLayout)) k restart bestResults g = Some (rs, g')"
    and all: "\<And>x. x \<in> set bestResults \<Longrightarrow> keepsLocked lib config startLayout (Layout x)"
    and x: "x \<in> set rs"
  shows "keepsLocked lib config startLayout (Layout x)"
  using r all
proof (induction k arbitrary: restart bestResults g)
  case 0
  then show ?case using x by simp
next
  case (Suc k)
  from Suc.prems(1) obtain res g1 where
    rr: "runRestart lib config langData params (fst (createLowercaseLayout lib startLayout))
              (snd (createLowercaseLayout lib startLayout)) restart bestResults g = Some (res, g1)"
    and l: "restartLoop lib config langData params numBest (fst (createLowercaseLayout lib startLayout))
              (snd (createLowercaseLayout lib startLayout)) k (Suc restart)
              (truncateBest numBest (sortResultsByScore (bestResults @ [res]))) g1 = Some (rs, g')"
    by (auto split: option.splits)
  have kr: "keepsLocked lib config startLayout (Layout res)"
    by (rule runRestart_keepsLocked[OF blank rr]) (rule Suc.prems(2))
  show ?case
  proof (rule Suc.IH[OF l])
    fix y
    assume "y \<in> set (truncateBest numBest (sortResultsByScore (bestResults @ [res])))"
    then have "y \<in> set bestResults \<or> y = res"
      using truncateBest_subset[of numBest "sortResultsByScore (bestResults @ [res])"]
      by (auto simp: sortResultsByScore_set)
    then show "keepsLocked lib config startLayout (Layout y)"
      using kr Suc.prems(2) by auto
  qed
qed

text \<open>
  C5 (as amended). In a seeded search the resolved lock set is the set of positions of the
  uppercase letters of the seed when the seed has any, and otherwise the set of positions
  that the fixed-position mask does not mark with a dot. Every returned result carries, at
  every locked position of the grid, the key of the lower-cased seed (the seed's own key
  when lower-casing does not change it), and no position that the neighbour generator may
  swap is locked. The blank is assumed not to be an uppercase letter, as in Unicode.
\<close>

theorem locked_positions_keep_lowercased_seed:
  assumes "\<not> IsUpper lib 32"
  shows "(SearchOptimalLayoutFromSpecificLayout lib config langData params numBest startLayout
            = Some results
          \<and> result \<in> set results \<and> row < 3 \<and> col < 10
          \<and> lockedPosition lib config startLayout row col \<longrightarrow>
          Keys (Layout result) row col =
            (if nonEmptyKey (Keys startLayout row col) then ToLower lib (Keys startLayout row col)
             else Keys startLayout row col))
       \<and> (pos \<in> seededEligible lib config (fst (createLowercaseLayout lib startLayout))
                    (snd (createLowercaseLayout lib startLayout)) layout \<longrightarrow>
          \<not> lockedPosition lib config startLayout (fst pos) (snd pos))"
proof (intro conjI impI)
  assume a: "SearchOptimalLayoutFromSpecificLayout lib config langData params numBest startLayout
            = Some results
          \<and> result \<in> set results \<and> row < 3 \<and> col < 10
          \<and> lockedPosition lib config startLayout row col"
  then obtain rs g' where
    r: "restartLoop lib config langData params numBest (fst (createLowercaseLayout lib startLayout))
              (snd (createLowercaseLayout lib startLayout)) (nat (Restarts params)) 0 []
              (Seed lib (RandomSeed params)) = Some (rs, g')"
    and res: "results = truncateBest numBest rs"
    by (auto simp: SearchOptimalLayoutFromSpecificLayout_def Let_def split: prod.splits option.splits)
  have "result \<in> set rs" using a res truncateBest_subset by auto
  then have "keepsLocked lib config startLayout (Layout result)"
    using restartLoop_keepsLocked[OF assms r] by simp
  then have "Keys (Layout result) row col = Keys (fst (createLowercaseLayout lib startLayout)) row col"
    using a by (simp add: keepsLocked_def)
  then show "Keys (Layout result) row col =
            (if nonEmptyKey (Keys startLayout row col) then ToLower lib (Keys startLayout row col)
             else Keys startLayout row col)"
    using a by (simp add: createLowercaseLayout_eq)
next
  assume "pos \<in> seededEligible lib config (fst (createLowercaseLayout lib startLayout))
                    (snd (createLowercaseLayout lib startLayout)) layout"
  then show "\<not> lockedPosition lib config startLayout (fst pos) (snd pos)"
    by (rule eligible_not_locked[OF assms])
qed


section \<open>A seeded search with two restarts of one iteration\<close>

lemma Intn_siterate_add: "Intn n (siterate Suc k) = (k mod n, siterate Suc (k + 1))"
  by (simp add: Intn_def)

lemma Float64_siterate_add:
  "Float64 (siterate Suc k) = (real (k mod 2 ^ 53) / 2 ^ 53, siterate Suc (k + 1))"
  by (simp add: Float64_def)

lemma layout_eqI:
  "Name l = Name l' \<Longrightarrow> Keys l = Keys l' \<Longrightarrow> PreComments l = PreComments l'
     \<Longrightarrow> PostComments l = PostComments l' \<Longrightarrow> (l::Layout) = l'"
  by simp

lemma lower_exSeed3: "fst (createLowercaseLayout asciiLib exSeed3) = exLayoutACB"
  by (rule layout_eqI)
     (auto simp: createLowercaseLayout_eq exSeed3_def exLayoutACB_def mkKeys_def fun_eq_iff
      asciiLib_def nonEmptyKey_def)

lemma up_exSeed3:
  "snd (createLowercaseLayout asciiLib exSeed3) = (\<lambda>row col. row = 0 \<and> col = 0)"
  by (auto simp: createLowercaseLayout_eq exSeed3_def mkKeys_def fun_eq_iff
      nonEmptyKey_def isUppercase_ascii split: if_splits)

lemma swap_ACB: "swapKeys exLayoutACB (0, Suc 0) (0, 2) = exLayoutABC"
  by (rule layout_eqI)
     (auto simp: swapKeys_def Let_def setCell_apply exLayoutACB_def exLayoutABC_def mkKeys_def
      fun_eq_iff)

lemma swap_ABC: "swapKeys exLayoutABC (0, Suc 0) (0, 2) = exLayoutACB"
  by (rule layout_eqI)
     (auto simp: swapKeys_def Let_def setCell_apply exLayoutACB_def exLayoutABC_def mkKeys_def
      fun_eq_iff)

lemma swapPositions_ACB:
  "swapPositions asciiLib exLayoutACB exConfig2 exLayoutACB (\<lambda>row col. row = 0 \<and> col = 0)
     = [(0, 1), (0, 2)]"
  by (simp add: swapPositions_def list_ex_positions positions_eq exLayoutACB_def mkKeys_def)

lemma swapPositions_ABC:
  "swapPositions asciiLib exLayoutABC exConfig2 exLayoutACB (\<lambda>row col. row = 0 \<and> col = 0)
     = [(0, 1), (0, 2)]"
  by (simp add: swapPositions_def list_ex_positions positions_eq exLayoutABC_def mkKeys_def)

lemma seeded_neighbor_swap:
  assumes "swapPositions lib layout config base up = swaps" and "length swaps = n" and "2 \<le> n"
    and "Intn n g = (i1, g1)" and "Intn n g1 = (i2, g2)" and "i2 \<noteq> i1"
  shows "generateNeighborFromBaseLayoutWithUppercaseInfo lib layout config base up g
           = Some (swapKeys layout (swaps ! i1) (swaps ! i2), g2)"
  using assms
  by (simp add: generateNeighborFromBaseLayoutWithUppercaseInfo_def Let_def redrawMany_done)

lemma neighbor_ACB:
  "generateNeighborFromBaseLayoutWithUppercaseInfo asciiLib exLayoutACB exConfig2 exLayoutACB
       (\<lambda>row col. row = 0 \<and> col = 0) (siterate Suc 2)
     = Some (exLayoutABC, siterate Suc 4)"
proof -
  have "generateNeighborFromBaseLayoutWithUppercaseInfo asciiLib exLayoutACB exConfig2 exLayoutACB
       (\<lambda>row col. row = 0 \<and> col = 0) (siterate Suc 2)
     = Some (swapKeys exLayoutACB ([(0, 1), (0, 2)] ! 0) ([(0, 1), (0, 2)] ! 1), siterate Suc 4)"
    by (rule seeded_neighbor_swap[OF swapPositions_ACB, where n = 2 and ?g1.0 = "siterate Suc 3"])
       (simp_all add: Intn_siterate_add)
  then show ?thesis by (simp add: swap_ACB)
qed

lemma neighbor_ABC:
  "generateNeighborFromBaseLayoutWithUppercaseInfo asciiLib exLayoutABC exConfig2 exLayoutACB
       (\<lambda>row col. row = 0 \<and> col = 0) (siterate Suc 4)
     = Some (exLayoutACB, siterate Suc 6)"
proof -
  have "generateNeighborFromBaseLayoutWithUppercaseInfo asciiLib exLayoutABC exConfig2 exLayoutACB
       (\<lambda>row col. row = 0 \<and> col = 0) (siterate Suc 4)
     = Some (swapKeys exLayoutABC ([(0, 1), (0, 2)] ! 0) ([(0, 1), (0, 2)] ! 1), siterate Suc 6)"
    by (rule seeded_neighbor_swap[OF swapPositions_ABC, where n = 2 and ?g1.0 = "siterate Suc 5"])
       (simp_all add: Intn_siterate_add)
  then show ?thesis by (simp add: swap_ABC)
qed

lemma calculateMEP_exConfig2: "calculateMEP a exConfig2 = 0"
  by (simp add: calculateMEP_def exConfig2_def upt_8 upt_3)

lemma score_exConfig2:
  "WeightedScore (AnalyzeLayout l exConfig2 exLang2) = TotalEffort (AnalyzeLayout l exConfig2 exLang2)"
proof -
  obtain a where "MEP (AnalyzeLayout l exConfig2 exLang2) = calculateMEP a exConfig2"
    using AnalyzeLayout_MEP by blast
  then have m: "MEP (AnalyzeLayout l exConfig2 exLang2) = 0" by (simp add: calculateMEP_exConfig2)
  have w: "Weights exConfig2 = exWeights" by (simp add: exConfig2_def)
  have t: "TIB (BigramAnalysis (AnalyzeLayout l exConfig2 exLang2)) = 0"
    by (simp add: AnalyzeLayout_bigrams calculateBigrams_fresh Let_def bigramSums_def exLang2_def
        zeroSums_def zeroBigramAnalysis_def)
  show ?thesis
    by (subst AnalyzeLayout_score) (simp add: Let_def m w t exWeights_def)
qed

lemma uniformEffort_exConfig2: "uniformEffort exConfig2 = 59 / 30"
  by (simp add: uniformEffort_def positions_eq exConfig2_def)

lemma score_ACB: "WeightedScore (AnalyzeLayout exLayoutACB exConfig2 exLang2) = 6000 / 59"
proof -
  have k: "buildKeyPos exLayoutACB [98] = Some (0, 2)"
    by (simp add: buildKeyPos_def positions_eq exLayoutACB_def mkKeys_def)
  have t: "effortTotals exConfig2 (buildKeyPos exLayoutACB) (Characters exLang2) = (2, 1)"
    by (simp add: k effortTotals_def exLang2_def exConfig2_def)
  show ?thesis
    by (simp add: score_exConfig2 AnalyzeLayout_effort calculateEffort_total t Let_def
        uniformEffort_exConfig2)
qed

lemma score_ABC: "WeightedScore (AnalyzeLayout exLayoutABC exConfig2 exLang2) = 3000 / 59"
proof -
  have k: "buildKeyPos exLayoutABC [98] = Some (0, 1)"
    by (simp add: buildKeyPos_def positions_eq exLayoutABC_def mkKeys_def)
  have t: "effortTotals exConfig2 (buildKeyPos exLayoutABC) (Characters exLang2) = (1, 1)"
    by (simp add: k effortTotals_def exLang2_def exConfig2_def)
  show ?thesis
    by (simp add: score_exConfig2 AnalyzeLayout_effort calculateEffort_total t Let_def
        uniformEffort_exConfig2)
qed

lemma runRestart_ex0:
  "runRestart asciiLib exConfig2 exLang2 exParams1 exLayoutACB (\<lambda>row col. row = 0 \<and> col = 0)
       0 [] (siterate Suc 2)
     = Some (resultOf exConfig2 exLang2 exLayoutABC, siterate Suc 4)"
proof -
  have i: "nat (Iterations exParams1) = Suc 0" by (simp add: exParams1_def)
  show ?thesis
    unfolding runRestart_def i
    by (simp add: Let_def annealStep_def neighbor_ACB score_ACB score_ABC acceptNeighbor_def
        resultOf_def)
qed

lemma runRestart_ex1:
  "runRestart asciiLib exConfig2 exLang2 exParams1 exLayoutACB (\<lambda>row col. row = 0 \<and> col = 0)
       (Suc 0) [resultOf exConfig2 exLang2 exLayoutABC] (siterate Suc 4)
     = Some (resultOf exConfig2 exLang2 exLayoutABC, siterate Suc 7)"
proof -
  have i: "nat (Iterations exParams1) = Suc 0" by (simp add: exParams1_def)
  have t: "InitialTemp exParams1 = 0" by (simp add: exParams1_def)
  have l: "Layout (resultOf exConfig2 exLang2 exLayoutABC) = exLayoutABC" by (simp add: resultOf_def)
  show ?thesis
    unfolding runRestart_def i
    by (simp add: Let_def annealStep_def neighbor_ABC score_ACB score_ABC acceptNeighbor_def
        resultOf_def t Float64_siterate_add)
qed

lemma search_ex3:
  "SearchOptimalLayoutFromSpecificLayout asciiLib exConfig2 exLang2 exParams1 1 exSeed3
     = Some [resultOf exConfig2 exLang2 exLayoutABC]"
proof -
  have r: "nat (Restarts exParams1) = Suc (Suc 0)" by (simp add: exParams1_def)
  have s: "Seed asciiLib (RandomSeed exParams1) = siterate Suc 2"
    by (simp add: asciiLib_def exParams1_def)
  have c: "createLowercaseLayout asciiLib exSeed3 = (exLayoutACB, (\<lambda>row col. row = 0 \<and> col = 0))"
    using lower_exSeed3 up_exSeed3 by (metis prod.collapse)
  have s1: "sortResultsByScore [resultOf exConfig2 exLang2 exLayoutABC]
      = [resultOf exConfig2 exLang2 exLayoutABC]"
    by (rule sortResultsByScore_id) simp
  have s2: "sortResultsByScore [resultOf exConfig2 exLang2 exLayoutABC, resultOf exConfig2 exLang2 exLayoutABC]
      = [resultOf exConfig2 exLang2 exLayoutABC, resultOf exConfig2 exLang2 exLayoutABC]"
    by (rule sortResultsByScore_id) (auto simp: nth_Cons split: nat.splits)
  show ?thesis
    unfolding SearchOptimalLayoutFromSpecificLayout_def r s c Let_def prod.case
    by (simp add: runRestart_ex0 runRestart_ex1 s1 s2 truncateBest_def)
qed


theorem locked_positions_keep_lowercased_seed_witness:
  "\<not> IsUpper asciiLib 32
   \<and> SearchOptimalLayoutFromSpecificLayout asciiLib exConfig2 exLang2 exParams1 1 exSeed3
        = Some [resultOf exConfig2 exLang2 exLayoutABC]
   \<and> resultOf exConfig2 exLang2 exLayoutABC \<in> set [resultOf exConfig2 exLang2 exLayoutABC]
   \<and> (0::nat) < 3 \<and> (0::nat) < 10
   \<and> lockedPosition asciiLib exConfig2 exSeed3 0 0
   \<and> Keys (Layout (resultOf exConfig2 exLang2 exLayoutABC)) 0 0 = [97]
   \<and> (0, 1) \<in> seededEligible asciiLib exConfig2 (fst (createLowercaseLayout asciiLib exSeed3))
                    (snd (createLowercaseLayout asciiLib exSeed3)) exLayoutACB
   \<and> \<not> lockedPosition asciiLib exConfig2 exSeed3 0 1"
proof -
  have h1: "\<not> IsUpper asciiLib 32" by (simp add: asciiLib_def)
  have u: "isUppercase asciiLib (Keys exSeed3 0 0)"
    by (simp add: exSeed3_def mkKeys_def isUppercase_ascii)
  then have e: "\<exists>r c. r < 3 \<and> c < 10 \<and> isUppercase asciiLib (Keys exSeed3 r c)"
    by (intro exI[of _ 0]) simp
  have h2: "lockedPosition asciiLib exConfig2 exSeed3 0 0"
    unfolding lockedPosition_def using e u by (simp only: if_True)
  have "(0, 1) \<in> set (swapPositions asciiLib exLayoutACB exConfig2 exLayoutACB (\<lambda>row col. row = 0 \<and> col = 0))"
    by (simp add: swapPositions_ACB)
  then have h3: "(0, 1) \<in> seededEligible asciiLib exConfig2 (fst (createLowercaseLayout asciiLib exSeed3))
                    (snd (createLowercaseLayout asciiLib exSeed3)) exLayoutACB"
    by (simp add: swapPositions_set lower_exSeed3 up_exSeed3)
  have k: "Keys exSeed3 0 0 = [65]" "ToLower asciiLib [65] = [97]"
    by (simp_all add: exSeed3_def mkKeys_def asciiLib_def)
  show ?thesis
    using h1 h2 h3 search_ex3 k
      locked_positions_keep_lowercased_seed[OF h1, of exConfig2 exLang2 exParams1 1 exSeed3
        "[resultOf exConfig2 exLang2 exLayoutABC]" "resultOf exConfig2 exLang2 exLayoutABC" 0 0
        "(0, 1)" exLayoutACB]
    by (simp add: nonEmptyKey_def)
qed

text \<open>
  C5 as stated fails where the seed locks a position with an uppercase letter: the seed has
  A on the first key, which is locked, and the returned layout has a there.
\<close>

theorem locked_uppercase_is_lowercased_counterexample:
  "SearchOptimalLayoutFromSpecificLayout asciiLib exConfig2 exLang2 exParams1 1 exSeed3
        = Some [resultOf exConfig2 exLang2 exLayoutABC]
   \<and> lockedPosition asciiLib exConfig2 exSeed3 0 0
   \<and> Keys (Layout (resultOf exConfig2 exLang2 exLayoutABC)) 0 0 = [97]
   \<and> Keys exSeed3 0 0 = [65]"
proof -
  have u: "isUppercase asciiLib (Keys exSeed3 0 0)"
    by (simp add: exSeed3_def mkKeys_def isUppercase_ascii)
  then have e: "\<exists>r c. r < 3 \<and> c < 10 \<and> isUppercase asciiLib (Keys exSeed3 r c)"
    by (intro exI[of _ 0]) simp
  have h2: "lockedPosition asciiLib exConfig2 exSeed3 0 0"
    unfolding lockedPosition_def using e u by (simp only: if_True)
  have k: "Keys (Layout (resultOf exConfig2 exLang2 exLayoutABC)) 0 0 = [97]" "Keys exSeed3 0 0 = [65]"
    by (simp_all add: resultOf_def exLayoutABC_def exSeed3_def mkKeys_def)
  show ?thesis using search_ex3 h2 k by simp
qed


section \<open>sortResultsByScore sorts\<close>









section \<open>Ranking of the restarts\<close>













lemma resultOf_Layout [simp]: "Layout (resultOf config langData l) = l"
  by (simp add: resultOf_def)







end
